theory Spec2Isabelle
  imports Main
begin

section \<open>JavaScript strings\<close>

text \<open>
  A string is a list of characters, and a character is one UTF-16 code unit below 256
  (the Latin-1 range \<^verbatim>\<open>U+0000\<close> to \<^verbatim>\<open>U+00FF\<close>); texts with other code units are outside
  the model. The string methods the provider calls are written out: \<^verbatim>\<open>startsWith\<close>,
  \<^verbatim>\<open>endsWith\<close>, \<^verbatim>\<open>includes\<close>, \<^verbatim>\<open>substring\<close>, \<^verbatim>\<open>replace\<close> with a string pattern (first
  occurrence only, with the \<^verbatim>\<open>$$\<close>, \<^verbatim>\<open>$&\<close>, \<^verbatim>\<open>$`\<close> and \<^verbatim>\<open>$'\<close> patterns of the replacement
  text expanded), the two anchored regular-expression replacements, and \<^verbatim>\<open>toLowerCase\<close>.
\<close>

definition startsWith :: "string \<Rightarrow> string \<Rightarrow> bool" where
  "startsWith s p = (take (length p) s = p)"

definition endsWith :: "string \<Rightarrow> string \<Rightarrow> bool" where
  "endsWith s p = (length p \<le> length s \<and> drop (length s - length p) s = p)"

fun str_includes :: "string \<Rightarrow> string \<Rightarrow> bool" where
  "str_includes [] p = (p = [])"
| "str_includes (c # cs) p = (startsWith (c # cs) p \<or> str_includes cs p)"

definition substring :: "string \<Rightarrow> nat \<Rightarrow> string" where
  "substring s n = drop n s"

fun splitAtFirst :: "string \<Rightarrow> string \<Rightarrow> (string \<times> string) option" where
  "splitAtFirst pat [] = (if pat = [] then Some ([], []) else None)"
| "splitAtFirst pat (c # cs) =
     (if startsWith (c # cs) pat then Some ([], drop (length pat) (c # cs))
      else (case splitAtFirst pat cs of
              None \<Rightarrow> None
            | Some (b, a) \<Rightarrow> Some (c # b, a)))"

fun getSubstitution :: "string \<Rightarrow> string \<Rightarrow> string \<Rightarrow> string \<Rightarrow> string" where
  "getSubstitution m b a (c # d # r) =
     (if c = CHR ''$'' \<and> d = CHR ''$'' then CHR ''$'' # getSubstitution m b a r
      else if c = CHR ''$'' \<and> d = CHR ''&'' then m @ getSubstitution m b a r
      else if c = CHR ''$'' \<and> d = CHR 0x60 then b @ getSubstitution m b a r
      else if c = CHR ''$'' \<and> d = CHR 0x27 then a @ getSubstitution m b a r
      else c # getSubstitution m b a (d # r))"
| "getSubstitution m b a r = r"

definition replaceString :: "string \<Rightarrow> string \<Rightarrow> string \<Rightarrow> string" where
  "replaceString s pat repl =
     (case splitAtFirst pat s of
        None \<Rightarrow> s
      | Some (b, a) \<Rightarrow> b @ getSubstitution pat b a repl @ a)"

definition replaceSuffix :: "string \<Rightarrow> string \<Rightarrow> string \<Rightarrow> string" where
  "replaceSuffix s suffix repl =
     (if endsWith s suffix then take (length s - length suffix) s @ repl else s)"

definition isLowerAZ :: "char \<Rightarrow> bool" where
  "isLowerAZ c = (97 \<le> (of_char c :: nat) \<and> (of_char c :: nat) \<le> 122)"

definition isUpperAZ :: "char \<Rightarrow> bool" where
  "isUpperAZ c = (65 \<le> (of_char c :: nat) \<and> (of_char c :: nat) \<le> 90)"

text \<open>
  \<^verbatim>\<open>toLowerCase\<close> maps every character that has a lower-case form to it. Below 256 these
  are \<^verbatim>\<open>A-Z\<close> and the letters \<^verbatim>\<open>U+00C0\<close> to \<^verbatim>\<open>U+00DE\<close> without the multiplication sign
  \<^verbatim>\<open>U+00D7\<close>; the lower-case form is 32 code units further on in each case.
\<close>

definition isUpperCase :: "char \<Rightarrow> bool" where
  "isUpperCase c =
     (isUpperAZ c
      \<or> (192 \<le> (of_char c :: nat) \<and> (of_char c :: nat) \<le> 222 \<and> (of_char c :: nat) \<noteq> 215))"

definition toLowerChar :: "char \<Rightarrow> char" where
  "toLowerChar c = (if isUpperCase c then char_of ((of_char c :: nat) + 32) else c)"

definition toLowerCase :: "string \<Rightarrow> string" where
  "toLowerCase s = map toLowerChar s"

text \<open>
  \<^verbatim>\<open>name.replace(/([a-z])([A-Z])/g, "$1_$2")\<close>: the global replacement scans from the left
  and resumes after each match, so a matched pair is consumed as a whole.
\<close>

fun replaceLowerUpper :: "string \<Rightarrow> string" where
  "replaceLowerUpper (a # b # r) =
     (if isLowerAZ a \<and> isUpperAZ b then a # CHR ''_'' # b # replaceLowerUpper r
      else a # replaceLowerUpper (b # r))"
| "replaceLowerUpper s = s"

section \<open>Node's path module, POSIX flavour\<close>

text \<open>
  \<^verbatim>\<open>path.sep\<close> is \<^verbatim>\<open>/\<close>. \<^verbatim>\<open>normalizeString\<close> drops empty and \<^verbatim>\<open>.\<close> segments and resolves
  \<^verbatim>\<open>..\<close> against the segment before it; above the start of a relative path the \<^verbatim>\<open>..\<close> is
  kept, above the root it is dropped. The segments collected so far are held innermost
  first.
\<close>

fun splitOn :: "char \<Rightarrow> string \<Rightarrow> string list" where
  "splitOn sep [] = [[]]"
| "splitOn sep (c # cs) =
     (if c = sep then [] # splitOn sep cs
      else (case splitOn sep cs of
              [] \<Rightarrow> [[c]]
            | w # ws \<Rightarrow> (c # w) # ws))"

fun joinWith :: "string \<Rightarrow> string list \<Rightarrow> string" where
  "joinWith sep [] = []"
| "joinWith sep [x] = x"
| "joinWith sep (x # y # ys) = x @ sep @ joinWith sep (y # ys)"

fun normalizeStep :: "bool \<Rightarrow> string list \<Rightarrow> string \<Rightarrow> string list" where
  "normalizeStep allowAboveRoot res seg =
     (if seg = [] \<or> seg = ''.'' then res
      else if seg = ''..'' then
        (case res of
           [] \<Rightarrow> if allowAboveRoot then [''..''] else []
         | s # rest \<Rightarrow>
             if s = ''..'' then (if allowAboveRoot then ''..'' # res else res)
             else rest)
      else seg # res)"

definition normalizeString :: "string \<Rightarrow> bool \<Rightarrow> string" where
  "normalizeString path allowAboveRoot =
     joinWith ''/'' (rev (foldl (normalizeStep allowAboveRoot) [] (splitOn CHR ''/'' path)))"

definition path_normalize :: "string \<Rightarrow> string" where
  "path_normalize path =
     (if path = [] then ''.''
      else
        let isAbsolute = (hd path = CHR ''/'');
            trailingSeparator = (last path = CHR ''/'');
            p = normalizeString path (\<not> isAbsolute)
        in if p = [] then (if isAbsolute then ''/'' else if trailingSeparator then ''./'' else ''.'')
           else (if isAbsolute then ''/'' else []) @ p @ (if trailingSeparator then ''/'' else []))"

definition path_join :: "string list \<Rightarrow> string" where
  "path_join args =
     (case filter (\<lambda>a. a \<noteq> []) args of
        [] \<Rightarrow> ''.''
      | a # as \<Rightarrow> path_normalize (joinWith ''/'' (a # as)))"

text \<open>
  \<^verbatim>\<open>path.resolve\<close> walks its arguments from the right, then the working directory, until an
  absolute one is met.
\<close>

fun resolveArgs :: "string list \<Rightarrow> string \<Rightarrow> string \<times> bool" where
  "resolveArgs [] acc = (acc, False)"
| "resolveArgs (p # ps) acc =
     (if p = [] then resolveArgs ps acc
      else if hd p = CHR ''/'' then (p @ ''/'' @ acc, True)
      else resolveArgs ps (p @ ''/'' @ acc))"

definition path_resolve :: "string \<Rightarrow> string list \<Rightarrow> string" where
  "path_resolve cwd args =
     (case resolveArgs (rev args @ [cwd]) [] of
        (resolvedPath, resolvedAbsolute) \<Rightarrow>
          let n = normalizeString resolvedPath (\<not> resolvedAbsolute)
          in if resolvedAbsolute then ''/'' @ n else if n \<noteq> [] then n else ''.'')"

text \<open>
  \<^verbatim>\<open>path.dirname\<close> scans from the end down to index 1: trailing separators are skipped,
  then the last segment, and the path is cut at the separator before it.
\<close>

definition dirnameEnd :: "string \<Rightarrow> nat option" where
  "dirnameEnd path =
     (let r1 = dropWhile (\<lambda>c. c = CHR ''/'') (rev (tl path));
          r2 = dropWhile (\<lambda>c. c \<noteq> CHR ''/'') r1
      in if r2 = [] then None else Some (length r2))"

definition path_dirname :: "string \<Rightarrow> string" where
  "path_dirname path =
     (if path = [] then ''.''
      else
        let hasRoot = (hd path = CHR ''/'')
        in (case dirnameEnd path of
              None \<Rightarrow> if hasRoot then ''/'' else ''.''
            | Some e \<Rightarrow> if hasRoot \<and> e = 1 then ''//'' else take e path))"

section \<open>Syntax trees\<close>

text \<open>
  The tree the TypeScript parser returns, with one constructor for each kind of node the
  provider inspects and \<open>Other\<close> for every other kind. A node's fields are the ones the
  provider reads (\<^verbatim>\<open>expression\<close>, \<^verbatim>\<open>arguments\<close>, \<^verbatim>\<open>elements\<close>, \<^verbatim>\<open>name\<close>, \<^verbatim>\<open>initializer\<close>,
  \<^verbatim>\<open>body\<close>, \<^verbatim>\<open>modifiers\<close>); the remaining children are kept as lists so that
  \<^verbatim>\<open>forEachChild\<close> visits them in place. An identifier carries \<^verbatim>\<open>getStart()\<close>, \<^verbatim>\<open>getEnd()\<close>
  and its text.
\<close>

datatype node =
    Identifier nat nat string
  | StringLiteral string
  | ImportKeyword
  | ExportKeyword
  | DefaultKeyword
  | CallExpression node "node list" "node list"
  | PropertyAccessExpression node node
  | ArrayLiteralExpression "node list"
  | ArrowFunction "node list" node
  | FunctionExpression "node list"
  | VariableDeclaration node "node list" "node option"
  | ClassDeclaration "node list" "node list"
  | MethodDeclaration "node list" node "node list"
  | PropertyDeclaration "node list" node "node list"
  | FunctionDeclaration "node list" "node option" "node list"
  | Other "node list"

fun optionalNode :: "node option \<Rightarrow> node list" where
  "optionalNode None = []"
| "optionalNode (Some n) = [n]"

text \<open>The children \<^verbatim>\<open>ts.forEachChild\<close> visits, in its order.\<close>

fun children :: "node \<Rightarrow> node list" where
  "children (CallExpression e targs args) = e # targs @ args"
| "children (PropertyAccessExpression e n) = [e, n]"
| "children (ArrayLiteralExpression es) = es"
| "children (ArrowFunction ps b) = ps @ [b]"
| "children (FunctionExpression cs) = cs"
| "children (VariableDeclaration n ts i) = n # ts @ optionalNode i"
| "children (ClassDeclaration ms cs) = ms @ cs"
| "children (MethodDeclaration ms n cs) = ms @ n # cs"
| "children (PropertyDeclaration ms n cs) = ms @ n # cs"
| "children (FunctionDeclaration ms n cs) = ms @ optionalNode n @ cs"
| "children (Other cs) = cs"
| "children _ = []"

text \<open>
  A node of a tree is referred to by the child indices that lead to it, innermost first:
  \<open>[]\<close> is the root, \<open>i # r\<close> is child \<open>i\<close> of the node \<open>r\<close>, and \<^verbatim>\<open>node.parent\<close> is the tail.
  Two references are the same node (\<^verbatim>\<open>===\<close>) when they are equal.
\<close>

type_synonym nodeRef = "nat list"

fun descend :: "node \<Rightarrow> nat list \<Rightarrow> node option" where
  "descend n [] = Some n"
| "descend n (i # is) = (if i < length (children n) then descend (children n ! i) is else None)"

definition getNode :: "node \<Rightarrow> nodeRef \<Rightarrow> node option" where
  "getNode root r = descend root (rev r)"

fun isIdentifier :: "node \<Rightarrow> bool" where
  "isIdentifier (Identifier s e t) = True"
| "isIdentifier _ = False"

fun isStringLiteral :: "node \<Rightarrow> bool" where
  "isStringLiteral (StringLiteral t) = True"
| "isStringLiteral _ = False"

fun nodeText :: "node \<Rightarrow> string" where
  "nodeText (Identifier s e t) = t"
| "nodeText (StringLiteral t) = t"
| "nodeText _ = []"

text \<open>
  \<^verbatim>\<open>getChildren()\<close> also lists the tokens and the syntax lists between the nodes. The tree
  it spans is kept beside the first one: each entry has \<^verbatim>\<open>getStart()\<close>, \<^verbatim>\<open>getEnd()\<close>, the
  reference of the node it stands for (none for a punctuation token or a syntax list) and
  its own children.
\<close>

datatype syntaxTree = SyntaxNode nat nat "nodeRef option" "syntaxTree list"

record sourceFile =
  sfFileName :: string
  sfText :: string
  sfRoot :: node
  sfTokens :: syntaxTree

section \<open>JSON values and the world outside\<close>

text \<open>
  The values \<^verbatim>\<open>JSON.parse\<close> returns, and \<open>JNative\<close> for a function or a prototype object of
  the runtime, which a property read can return for an inherited name. A number is kept as
  the text \<^verbatim>\<open>String(n)\<close> gives for it, and a \<open>JNative\<close> value likewise carries the text
  \<^verbatim>\<open>String\<close> gives for it. An object lists its own properties, each name once.
\<close>

datatype json =
    JNull
  | JBool bool
  | JNum string
  | JStr string
  | JArr "json list"
  | JObj "(string \<times> json) list"
  | JNative string

fun truthy :: "json \<Rightarrow> bool" where
  "truthy JNull = False"
| "truthy (JBool b) = b"
| "truthy (JNum r) = (r \<noteq> ''0'')"
| "truthy (JStr s) = (s \<noteq> [])"
| "truthy (JArr xs) = True"
| "truthy (JObj kvs) = True"
| "truthy (JNative t) = True"

text \<open>
  \<^verbatim>\<open>String(v)\<close>, with \<open>None\<close> for the \<^verbatim>\<open>TypeError\<close> it throws. An object is converted by its
  \<^verbatim>\<open>toString\<close> method: the inherited one gives \<^verbatim>\<open>[object Object]\<close>, but an own property of
  that name holds a parsed value, which cannot be called, and the conversion then fails
  (\<^verbatim>\<open>valueOf\<close> does not yield a primitive either). An array joins the conversions of its
  elements with commas, \<^verbatim>\<open>null\<close> giving the empty string.
\<close>

fun js_String :: "json \<Rightarrow> string option" where
  "js_String JNull = Some ''null''"
| "js_String (JBool b) = Some (if b then ''true'' else ''false'')"
| "js_String (JNum r) = Some r"
| "js_String (JStr s) = Some s"
| "js_String (JArr xs) =
     (let parts = map (\<lambda>x. if x = JNull then Some [] else js_String x) xs
      in if None \<in> set parts then None else Some (joinWith '','' (map the parts)))"
| "js_String (JObj kvs) =
     (if ''toString'' \<in> fst ` set kvs then None else Some ''[object Object]'')"
| "js_String (JNative t) = Some t"

datatype fault = TypeError | FsError

text \<open>
  The file system, the JSON and TypeScript parsers, the working directory and the editor's
  open documents (path and text) are given. A file-system call that throws returns \<open>None\<close>.
  \<open>builtinMember\<close> stands for the built-in prototypes of the runtime other than
  \<^verbatim>\<open>Object.prototype\<close>: for a value that is not a plain object and a property name, the
  text \<^verbatim>\<open>String\<close> gives for the member of that name which the value has from
  \<^verbatim>\<open>Array.prototype\<close>, \<^verbatim>\<open>String.prototype\<close>, \<^verbatim>\<open>Number.prototype\<close>, \<^verbatim>\<open>Boolean.prototype\<close> or, for a
  function, from \<^verbatim>\<open>Function.prototype\<close> and its own properties; \<open>None\<close> when there is no such
  member.
\<close>

record env =
  cwd :: string
  existsSync :: "string \<Rightarrow> bool"
  statSync :: "string \<Rightarrow> int option"
  readFileSync :: "string \<Rightarrow> string option"
  JSON_parse :: "string \<Rightarrow> json option"
  createSourceFile :: "string \<Rightarrow> string \<Rightarrow> sourceFile"
  textDocuments :: "(string \<times> string) list"
  builtinMember :: "json \<Rightarrow> string \<Rightarrow> string option"

text \<open>
  Reading a property, \<^verbatim>\<open>v[k]\<close>. \<open>Inr None\<close> is \<^verbatim>\<open>undefined\<close>; reading a property of \<^verbatim>\<open>null\<close>
  throws. An object has its own properties, an array its elements under the decimal
  indices and \<^verbatim>\<open>length\<close>, a string its one-character strings under the indices and
  \<^verbatim>\<open>length\<close>. Every value inherits the members of \<^verbatim>\<open>Object.prototype\<close>, twelve names in the
  language standard and its annex for web browsers; each reads as a function or, for
  \<^verbatim>\<open>__proto__\<close>, as a prototype object.
\<close>

definition objectPrototypeNames :: "string list" where
  "objectPrototypeNames =
     [''constructor'', ''toString'', ''toLocaleString'', ''valueOf'', ''hasOwnProperty'',
      ''isPrototypeOf'', ''propertyIsEnumerable'', ''__proto__'', ''__defineGetter__'',
      ''__defineSetter__'', ''__lookupGetter__'', ''__lookupSetter__'']"

text \<open>The text \<^verbatim>\<open>String\<close> gives for the member of \<^verbatim>\<open>Object.prototype\<close> of a name.\<close>

definition nativeText :: "string \<Rightarrow> string" where
  "nativeText k =
     (if k = ''__proto__'' then ''[object Object]''
      else if k = ''constructor'' then ''function Object() { [native code] }''
      else ''function '' @ k @ ''() { [native code] }'')"

fun decimal :: "nat \<Rightarrow> string" where
  "decimal n =
     (if n < 10 then [char_of (48 + n)]
      else decimal (n div 10) @ [char_of (48 + n mod 10)])"

declare decimal.simps [simp del]

definition indexOfKey :: "string \<Rightarrow> nat \<Rightarrow> nat option" where
  "indexOfKey k n = find (\<lambda>i. decimal i = k) [0..<n]"

definition inheritedProperty :: "env \<Rightarrow> json \<Rightarrow> string \<Rightarrow> json option" where
  "inheritedProperty e v k =
     (case (case v of JObj kvs \<Rightarrow> None | _ \<Rightarrow> builtinMember e v k) of
        Some t \<Rightarrow> Some (JNative t)
      | None \<Rightarrow> if k \<in> set objectPrototypeNames then Some (JNative (nativeText k)) else None)"

definition getProperty :: "env \<Rightarrow> json \<Rightarrow> string \<Rightarrow> fault + json option" where
  "getProperty e v k =
     (case v of
        JNull \<Rightarrow> Inl TypeError
      | JObj kvs \<Rightarrow>
          (case map_of kvs k of
             Some x \<Rightarrow> Inr (Some x)
           | None \<Rightarrow> Inr (inheritedProperty e v k))
      | JArr xs \<Rightarrow>
          if k = ''length'' then Inr (Some (JNum (decimal (length xs))))
          else
            (case indexOfKey k (length xs) of
               Some i \<Rightarrow> Inr (Some (xs ! i))
             | None \<Rightarrow> Inr (inheritedProperty e v k))
      | JStr s \<Rightarrow>
          if k = ''length'' then Inr (Some (JNum (decimal (length s))))
          else
            (case indexOfKey k (length s) of
               Some i \<Rightarrow> Inr (Some (JStr [s ! i]))
             | None \<Rightarrow> Inr (inheritedProperty e v k))
      | _ \<Rightarrow> Inr (inheritedProperty e v k))"

text \<open>
  The provider object: its two caches, keyed by the manifest's path. \<open>parseCount\<close> is not a
  field of the class; it counts the calls of \<^verbatim>\<open>JSON.parse\<close> made so far and is never read.
\<close>

record provider =
  importsCache :: "string \<Rightarrow> json option"
  cacheTimestamps :: "string \<Rightarrow> int option"
  parseCount :: nat

definition newProvider :: provider where
  "newProvider = \<lparr>importsCache = Map.empty, cacheTimestamps = Map.empty, parseCount = 0\<rparr>"

section \<open>Locations\<close>

type_synonym position = "nat \<times> nat"

record location =
  uri :: string
  rangeStart :: position
  rangeEnd :: position

record locationLink =
  originStart :: position
  originEnd :: position
  targetUri :: string
  targetStart :: position
  targetEnd :: position

datatype definitionResult = LocationResult location | LinkResult "locationLink list"

definition topOfFile :: "string \<Rightarrow> location" where
  "topOfFile p = \<lparr>uri = p, rangeStart = (0, 0), rangeEnd = (0, 0)\<rparr>"

text \<open>
  Offset to line and character (\<^verbatim>\<open>positionAt\<close>, \<^verbatim>\<open>getLineAndCharacterOfPosition\<close>): a line
  ends at LF, CR or CR LF; an offset past the end of the text is taken at the end.
\<close>

fun lineAndCharacter :: "string \<Rightarrow> nat \<Rightarrow> nat \<Rightarrow> nat \<Rightarrow> position" where
  "lineAndCharacter cs 0 l c = (l, c)"
| "lineAndCharacter [] (Suc n) l c = (l, c)"
| "lineAndCharacter (x # xs) (Suc n) l c =
     (if x = CHR 0x0A then lineAndCharacter xs n (Suc l) 0
      else if x = CHR 0x0D then
        (case xs of
           [] \<Rightarrow> lineAndCharacter xs n (Suc l) 0
         | y # ys \<Rightarrow>
             if y = CHR 0x0A then
               (case n of 0 \<Rightarrow> (l, Suc c) | Suc m \<Rightarrow> lineAndCharacter ys m (Suc l) 0)
             else lineAndCharacter xs n (Suc l) 0)
      else lineAndCharacter xs n l (Suc c))"

definition positionAt :: "string \<Rightarrow> nat \<Rightarrow> position" where
  "positionAt text' offset = lineAndCharacter text' offset 0 0"

section \<open>The definition provider\<close>

subsection \<open>Supported files and the project root\<close>

definition isSupportedFile :: "string \<Rightarrow> bool" where
  "isSupportedFile filePath =
     (let normalizedPath = path_normalize filePath
      in str_includes normalizedPath ''/routes/'' \<or> endsWith normalizedPath ''/start/routes.ts'')"

definition dirMeasure :: "string \<Rightarrow> nat" where
  "dirMeasure p = (if p = [] then 2 else if p = ''.'' then 0 else length p)"

function findProjectRootFrom :: "env \<Rightarrow> string \<Rightarrow> string option" where
  "findProjectRootFrom e currentDir =
     (if currentDir \<noteq> path_dirname currentDir then
        (if existsSync e (path_join [currentDir, ''package.json'']) then Some currentDir
         else findProjectRootFrom e (path_dirname currentDir))
      else None)"
  by pat_completeness auto

lemma dropWhile_length_le: "length (dropWhile P xs) \<le> length xs"
  by (induction xs) auto

lemma dropWhile_length_less: "xs \<noteq> [] \<Longrightarrow> P (hd xs) \<Longrightarrow> length (dropWhile P xs) < length xs"
  by (cases xs) (simp_all add: le_imp_less_Suc dropWhile_length_le)

lemma if_None_Some: "(if b then None else Some x) = Some e \<Longrightarrow> \<not> b \<and> e = x"
  by (simp split: if_splits)

lemma dirnameEnd_bounds:
  assumes "dirnameEnd p = Some e"
  shows "0 < e \<and> Suc e < length p"
proof -
  define r1 where "r1 = dropWhile (\<lambda>c. c = CHR ''/'') (rev (tl p))"
  define r2 where "r2 = dropWhile (\<lambda>c. c \<noteq> CHR ''/'') r1"
  have "dirnameEnd p = (if r2 = [] then None else Some (length r2))"
    unfolding dirnameEnd_def Let_def r1_def r2_def ..
  with assms have "\<not> r2 = [] \<and> e = length r2"
    by (intro if_None_Some) simp
  then have r2: "r2 \<noteq> []" and e: "e = length r2"
    by blast+
  have r1: "r1 \<noteq> []"
  proof
    assume "r1 = []"
    then have "r2 = []" unfolding r2_def by simp
    with r2 show False ..
  qed
  have "\<not> (hd r1 = CHR ''/'')"
    using r1 unfolding r1_def by (rule hd_dropWhile)
  then have "length r2 < length r1"
    unfolding r2_def using r1 by (intro dropWhile_length_less)
  moreover have "length r1 \<le> length (rev (tl p))"
    unfolding r1_def by (rule dropWhile_length_le)
  moreover have "0 < length r2"
    using r2 by blast
  ultimately show ?thesis
    unfolding e by (cases p) simp_all
qed

lemma dirname_measure:
  assumes "p \<noteq> path_dirname p"
  shows "dirMeasure (path_dirname p) < dirMeasure p"
proof (cases "p = []")
  case True
  then show ?thesis by (simp add: path_dirname_def dirMeasure_def)
next
  case False
  show ?thesis
  proof (cases "dirnameEnd p")
    case None
    with False assms show ?thesis
      by (cases p) (auto simp: path_dirname_def dirMeasure_def split: if_splits)
  next
    case (Some e)
    from dirnameEnd_bounds [OF Some] have b: "0 < e" "Suc e < length p" by auto
    then have "length (take e p) = e" by simp
    with b False Some show ?thesis
      by (auto simp: path_dirname_def dirMeasure_def Let_def)
  qed
qed

termination findProjectRootFrom
proof (relation "measure (\<lambda>(e, p). dirMeasure p)")
  show "wf (measure (\<lambda>(e, p). dirMeasure p))"
    by simp
next
  fix e :: env and currentDir :: string
  assume "currentDir \<noteq> path_dirname currentDir"
  then have "dirMeasure (path_dirname currentDir) < dirMeasure currentDir"
    by (rule dirname_measure)
  then show "((e, path_dirname currentDir), (e, currentDir)) \<in> measure (\<lambda>(e, p). dirMeasure p)"
    by simp
qed

definition findProjectRoot :: "env \<Rightarrow> string \<Rightarrow> string option" where
  "findProjectRoot e filePath = findProjectRootFrom e (path_dirname filePath)"

subsection \<open>The node at a position\<close>

fun findNode :: "nat \<Rightarrow> syntaxTree \<Rightarrow> syntaxTree option"
  and findNodeIn :: "nat \<Rightarrow> syntaxTree list \<Rightarrow> syntaxTree option" where
  "findNode pos (SyntaxNode s e r cs) =
     (if s \<le> pos \<and> pos \<le> e then
        (case findNodeIn pos cs of
           Some found \<Rightarrow> Some found
         | None \<Rightarrow> Some (SyntaxNode s e r cs))
      else None)"
| "findNodeIn pos [] = None"
| "findNodeIn pos (c # cs) =
     (case findNode pos c of
        Some found \<Rightarrow> Some found
      | None \<Rightarrow> findNodeIn pos cs)"

definition findNodeAtPosition :: "sourceFile \<Rightarrow> nat \<Rightarrow> syntaxTree option" where
  "findNodeAtPosition sf pos = findNode pos (sfTokens sf)"

subsection \<open>Classifying the click\<close>

datatype ClickContext =
    ControllerVariable string "string option"
  | MethodString string string
  | ControllerImportPath string
  | RoutesModule string

datatype HandlerInfo =
    ControllerHandler string string
  | ControllerVariableHandler string

definition routingVerbs :: "string list" where
  "routingVerbs = [''get'', ''post'', ''put'', ''patch'', ''delete'', ''route'', ''resource'', ''group'']"

text \<open>
  \<^verbatim>\<open>ts.isCallExpression(current) && ts.isPropertyAccessExpression(current.expression)\<close>,
  with the text of \<^verbatim>\<open>current.expression.name\<close> (none when the name is not an identifier).
\<close>

definition calleePropertyName :: "node \<Rightarrow> string option option" where
  "calleePropertyName n =
     (case n of
        CallExpression callee targs args \<Rightarrow>
          (case callee of
             PropertyAccessExpression e nm \<Rightarrow>
               Some (if isIdentifier nm then Some (nodeText nm) else None)
           | _ \<Rightarrow> None)
      | _ \<Rightarrow> None)"

definition isCallNamed :: "string list \<Rightarrow> node option \<Rightarrow> bool" where
  "isCallNamed names n =
     (case n of
        None \<Rightarrow> False
      | Some c \<Rightarrow>
          (case calleePropertyName c of
             Some (Some t) \<Rightarrow> t \<in> set names
           | _ \<Rightarrow> False))"

fun findCallNamed :: "string list \<Rightarrow> node \<Rightarrow> nodeRef \<Rightarrow> nodeRef option" where
  "findCallNamed names root [] = (if isCallNamed names (getNode root []) then Some [] else None)"
| "findCallNamed names root (i # up) =
     (if isCallNamed names (getNode root (i # up)) then Some (i # up)
      else findCallNamed names root up)"

definition findRouterCall :: "node \<Rightarrow> nodeRef \<Rightarrow> nodeRef option" where
  "findRouterCall root r = findCallNamed routingVerbs root r"

definition findRoutesGroupCall :: "node \<Rightarrow> nodeRef \<Rightarrow> nodeRef option" where
  "findRoutesGroupCall root r = findCallNamed [''group''] root r"

definition parseHandlerArgument :: "node \<Rightarrow> HandlerInfo option" where
  "parseHandlerArgument arg =
     (case arg of
        ArrayLiteralExpression es \<Rightarrow>
          if length es = 2 \<and> isIdentifier (es ! 0) \<and> isStringLiteral (es ! 1) then
            Some (ControllerHandler (nodeText (es ! 0)) (nodeText (es ! 1)))
          else None
      | ArrowFunction ps b \<Rightarrow> None
      | FunctionExpression cs \<Rightarrow> None
      | Identifier s e v \<Rightarrow> Some (ControllerVariableHandler v)
      | _ \<Rightarrow> None)"

definition callArguments :: "node option \<Rightarrow> node list option" where
  "callArguments n =
     (case n of
        Some (CallExpression e targs args) \<Rightarrow> Some args
      | _ \<Rightarrow> None)"

text \<open>
  The loop over the chained calls: \<open>r\<close> is \<^verbatim>\<open>currentCall\<close>; it moves to the parent while
  the parent is a call expression.
\<close>

fun chainedHandler :: "node \<Rightarrow> nodeRef \<Rightarrow> HandlerInfo option" where
  "chainedHandler root [] = None"
| "chainedHandler root (i # up) =
     (case callArguments (getNode root up) of
        None \<Rightarrow> None
      | Some args \<Rightarrow>
          if 2 \<le> length args then parseHandlerArgument (args ! 1)
          else chainedHandler root up)"

definition extractHandlerFromRouterCall :: "node \<Rightarrow> nodeRef \<Rightarrow> HandlerInfo option" where
  "extractHandlerFromRouterCall root call =
     (case callArguments (getNode root call) of
        None \<Rightarrow> None
      | Some args \<Rightarrow>
          if 2 \<le> length args then parseHandlerArgument (args ! 1)
          else chainedHandler root call)"

text \<open>
  \<^verbatim>\<open>node.parent\<close> is a two-element array literal whose first element is this node and
  whose second element is a string literal.
\<close>

definition isFirstOfTuple :: "node \<Rightarrow> nodeRef \<Rightarrow> bool" where
  "isFirstOfTuple root r =
     (case r of
        [] \<Rightarrow> False
      | i # up \<Rightarrow>
          (case getNode root up of
             Some (ArrayLiteralExpression es) \<Rightarrow>
               length es = 2 \<and> i = 0 \<and> isStringLiteral (es ! 1)
           | _ \<Rightarrow> False))"

definition handlerContext :: "node \<Rightarrow> nodeRef \<Rightarrow> string \<Rightarrow> ClickContext option" where
  "handlerContext root r text' =
     (case findRouterCall root r of
        None \<Rightarrow> None
      | Some routerCall \<Rightarrow>
          (case extractHandlerFromRouterCall root routerCall of
             None \<Rightarrow> None
           | Some (ControllerVariableHandler v) \<Rightarrow>
               if v \<noteq> [] then Some (ControllerVariable v None)
               else if isFirstOfTuple root r then Some (ControllerVariable text' None)
               else None
           | Some (ControllerHandler c m) \<Rightarrow>
               if isFirstOfTuple root r then Some (ControllerVariable text' None)
               else None))"

definition analyzeIdentifierClick :: "node \<Rightarrow> nodeRef \<Rightarrow> string \<Rightarrow> ClickContext option" where
  "analyzeIdentifierClick root r text' =
     (case handlerContext root r text' of
        Some ctx \<Rightarrow> Some ctx
      | None \<Rightarrow>
          (case findRoutesGroupCall root r of
             Some routesGroup \<Rightarrow> Some (RoutesModule text')
           | None \<Rightarrow> None))"

text \<open>
  \<^verbatim>\<open>current.elements.indexOf(node)\<close>: the index at which the clicked node itself is an
  element of the array at \<open>current\<close>.
\<close>

definition elementsIndexOf :: "nodeRef \<Rightarrow> nat \<Rightarrow> nodeRef \<Rightarrow> nat option" where
  "elementsIndexOf current n r =
     (case r of
        [] \<Rightarrow> None
      | i # up \<Rightarrow> if up = current \<and> i < n then Some i else None)"

definition tupleController :: "node \<Rightarrow> nodeRef \<Rightarrow> nodeRef \<Rightarrow> string option" where
  "tupleController root r current =
     (case getNode root current of
        Some (ArrayLiteralExpression es) \<Rightarrow>
          if length es = 2 \<and> elementsIndexOf current (length es) r = Some 1 then
            (if isIdentifier (es ! 0) then Some (nodeText (es ! 0)) else None)
          else None
      | _ \<Rightarrow> None)"

fun methodStringLoop :: "node \<Rightarrow> nodeRef \<Rightarrow> nodeRef \<Rightarrow> string option" where
  "methodStringLoop root r [] = tupleController root r []"
| "methodStringLoop root r (i # up) =
     (case tupleController root r (i # up) of
        Some c \<Rightarrow> Some c
      | None \<Rightarrow> methodStringLoop root r up)"

definition isMethodStringInTuple :: "node \<Rightarrow> nodeRef \<Rightarrow> string option" where
  "isMethodStringInTuple root r = methodStringLoop root r r"

definition analyzeStringLiteralClick :: "node \<Rightarrow> nodeRef \<Rightarrow> string \<Rightarrow> ClickContext option" where
  "analyzeStringLiteralClick root r text' =
     (case isMethodStringInTuple root r of
        Some controllerName \<Rightarrow> Some (MethodString controllerName text')
      | None \<Rightarrow>
          if startsWith text' ''#controllers/'' then Some (ControllerImportPath text')
          else None)"

definition analyzeClickContext :: "node \<Rightarrow> nodeRef \<Rightarrow> ClickContext option" where
  "analyzeClickContext root r =
     (case getNode root r of
        Some (Identifier s e t) \<Rightarrow> analyzeIdentifierClick root r t
      | Some (StringLiteral t) \<Rightarrow> analyzeStringLiteralClick root r t
      | _ \<Rightarrow> None)"

subsection \<open>The manifest's import map\<close>

definition orEmptyObject :: "json option \<Rightarrow> json" where
  "orEmptyObject v =
     (case v of
        None \<Rightarrow> JObj []
      | Some x \<Rightarrow> if truthy x then x else JObj [])"

text \<open>
  The body of the \<^verbatim>\<open>try\<close> in \<^verbatim>\<open>getPackageImports\<close> and its \<^verbatim>\<open>catch\<close>: a failed read, a
  failed parse and a manifest that is \<^verbatim>\<open>null\<close> (reading \<^verbatim>\<open>.imports\<close> of it throws) store the
  empty object and leave the timestamp as it was.
\<close>

definition loadImports :: "env \<Rightarrow> provider \<Rightarrow> string \<Rightarrow> int \<Rightarrow> provider" where
  "loadImports e st cacheKey mtime =
     (case readFileSync e cacheKey of
        None \<Rightarrow> st\<lparr>importsCache := (importsCache st)(cacheKey \<mapsto> JObj [])\<rparr>
      | Some content \<Rightarrow>
          let st1 = st\<lparr>parseCount := Suc (parseCount st)\<rparr>
          in (case JSON_parse e content of
                None \<Rightarrow> st1\<lparr>importsCache := (importsCache st1)(cacheKey \<mapsto> JObj [])\<rparr>
              | Some packageJson \<Rightarrow>
                  (case getProperty e packageJson ''imports'' of
                     Inl f \<Rightarrow> st1\<lparr>importsCache := (importsCache st1)(cacheKey \<mapsto> JObj [])\<rparr>
                   | Inr imports \<Rightarrow>
                       st1\<lparr>importsCache := (importsCache st1)(cacheKey \<mapsto> orEmptyObject imports),
                           cacheTimestamps := (cacheTimestamps st1)(cacheKey \<mapsto> mtime)\<rparr>)))"

definition getPackageImports :: "env \<Rightarrow> provider \<Rightarrow> string \<Rightarrow> (fault + json) \<times> provider" where
  "getPackageImports e st projectRoot =
     (let packageJsonPath = path_join [projectRoot, ''package.json'']
      in (case statSync e packageJsonPath of
            None \<Rightarrow> (Inl FsError, st)
          | Some mtime \<Rightarrow>
              let st' = (if cacheTimestamps st packageJsonPath \<noteq> Some mtime
                         then loadImports e st packageJsonPath mtime else st)
              in (Inr (orEmptyObject (importsCache st' packageJsonPath)), st')))"

subsection \<open>From a controller name to a file\<close>

fun firstExisting :: "env \<Rightarrow> string list \<Rightarrow> string option" where
  "firstExisting e [] = None"
| "firstExisting e (p # ps) = (if existsSync e p then Some p else firstExisting e ps)"

definition snakeCaseName :: "string \<Rightarrow> string" where
  "snakeCaseName controllerName = toLowerCase (replaceLowerUpper controllerName)"

definition controllerPaths :: "string \<Rightarrow> string \<Rightarrow> string list" where
  "controllerPaths basePath controllerName =
     [path_join [basePath, snakeCaseName controllerName @ ''.ts''],
      path_join [basePath, snakeCaseName controllerName @ ''.js''],
      path_join [basePath, controllerName, ''index.ts''],
      path_join [basePath, controllerName, ''index.js''],
      path_join [basePath, controllerName @ ''.ts''],
      path_join [basePath, controllerName @ ''.js'']]"

definition resolveControllerPath ::
  "env \<Rightarrow> provider \<Rightarrow> string \<Rightarrow> string \<Rightarrow> (fault + string option) \<times> provider" where
  "resolveControllerPath e st controllerName projectRoot =
     (case getPackageImports e st projectRoot of
        (Inl f, st') \<Rightarrow> (Inl f, st')
      | (Inr imports, st') \<Rightarrow>
          (case getProperty e imports ''#controllers/*'' of
             Inl f \<Rightarrow> (Inl f, st')
           | Inr None \<Rightarrow> (Inr None, st')
           | Inr (Some controllersMapping) \<Rightarrow>
               if \<not> truthy controllersMapping then (Inr None, st')
               else
                 (case js_String controllersMapping of
                    None \<Rightarrow> (Inl TypeError, st')
                  | Some mappingText \<Rightarrow>
                      let basePath = path_resolve (cwd e) [projectRoot, path_dirname mappingText]
                      in (Inr (firstExisting e (controllerPaths basePath controllerName)), st'))))"

subsection \<open>From an import path to a file\<close>

definition importCandidates :: "string \<Rightarrow> string list" where
  "importCandidates resolvedPath =
     [replaceString resolvedPath ''.js'' ''.ts'',
      resolvedPath,
      replaceSuffix resolvedPath ''.ts'' ''/index.ts'',
      replaceSuffix resolvedPath ''.js'' ''/index.js'']"

definition moduleCandidates :: "string \<Rightarrow> string \<Rightarrow> string list" where
  "moduleCandidates basePath controllerModule =
     [path_join [basePath, controllerModule @ ''.ts''],
      path_join [basePath, controllerModule @ ''.js''],
      path_join [basePath, controllerModule, ''index.ts''],
      path_join [basePath, controllerModule, ''index.js'']]"

text \<open>The second part of \<^verbatim>\<open>resolveControllerFromImportPath\<close>, the wildcard mapping.\<close>

definition resolveWildcard :: "env \<Rightarrow> json \<Rightarrow> string \<Rightarrow> string \<Rightarrow> fault + location option" where
  "resolveWildcard e imports importPath projectRoot =
     (if startsWith importPath ''#controllers/'' then
        (case getProperty e imports ''#controllers/*'' of
           Inl f \<Rightarrow> Inl f
         | Inr None \<Rightarrow> Inr None
         | Inr (Some controllersMapping) \<Rightarrow>
             if \<not> truthy controllersMapping then Inr None
             else
               (case js_String controllersMapping of
                  None \<Rightarrow> Inl TypeError
                | Some mappingPattern \<Rightarrow>
                    let controllerModule = substring importPath (length ''#controllers/'')
                    in if str_includes mappingPattern ''*'' then
                         Inr (map_option topOfFile
                           (firstExisting e (importCandidates (path_resolve (cwd e)
                              [projectRoot, replaceString mappingPattern ''*'' controllerModule]))))
                       else
                         Inr (map_option topOfFile
                           (firstExisting e (moduleCandidates
                              (path_resolve (cwd e) [projectRoot, path_dirname mappingPattern])
                              controllerModule)))))
      else Inr None)"

text \<open>
  \<^verbatim>\<open>path.resolve\<close> throws a \<^verbatim>\<open>TypeError\<close> for an argument that is not a string: a truthy
  mapping that is not a string, such as the function read under an inherited name.
\<close>

definition resolveControllerFromImportPath ::
  "env \<Rightarrow> provider \<Rightarrow> string \<Rightarrow> string \<Rightarrow> (fault + location option) \<times> provider" where
  "resolveControllerFromImportPath e st importPath projectRoot =
     (case getPackageImports e st projectRoot of
        (Inl f, st') \<Rightarrow> (Inl f, st')
      | (Inr imports, st') \<Rightarrow>
          (case getProperty e imports importPath of
             Inl f \<Rightarrow> (Inl f, st')
           | Inr None \<Rightarrow> (resolveWildcard e imports importPath projectRoot, st')
           | Inr (Some mapping) \<Rightarrow>
               if \<not> truthy mapping then (resolveWildcard e imports importPath projectRoot, st')
               else
                 (case mapping of
                    JStr m \<Rightarrow>
                      (Inr (map_option topOfFile
                         (firstExisting e (importCandidates
                            (path_resolve (cwd e) [projectRoot, m])))), st')
                  | _ \<Rightarrow> (Inl TypeError, st'))))"

subsection \<open>Walking a tree\<close>

text \<open>The measure under which the walks below end: a node outweighs the list of its children.\<close>

definition listWeight :: "node list \<Rightarrow> nat" where
  "listWeight cs = sum_list (map (\<lambda>c. 3 * size c + 1) cs)"

lemma listWeight_simps [simp]:
  "listWeight [] = 0"
  "listWeight (c # cs) = 3 * size c + 1 + listWeight cs"
  "listWeight (xs @ ys) = listWeight xs + listWeight ys"
  by (simp_all add: listWeight_def)

lemma listWeight_size_list: "listWeight cs \<le> 3 * size_list size cs"
  by (induction cs) simp_all

lemma listWeight_optionalNode: "listWeight (optionalNode n) \<le> 3 * size_option size n"
  by (cases n) simp_all

lemma children_weight: "listWeight (children n) \<le> 3 * size n"
proof (cases n)
  case (CallExpression e targs args)
  then show ?thesis
    using listWeight_size_list [of targs] listWeight_size_list [of args] by simp
next
  case (VariableDeclaration nm ts i)
  then show ?thesis
    using listWeight_size_list [of ts] listWeight_optionalNode [of i] by simp
next
  case (ArrowFunction ps b)
  then show ?thesis
    using listWeight_size_list [of ps] by simp
next
  case (ClassDeclaration ms cs)
  then show ?thesis
    using listWeight_size_list [of ms] listWeight_size_list [of cs] by simp
next
  case (MethodDeclaration ms nm cs)
  then show ?thesis
    using listWeight_size_list [of ms] listWeight_size_list [of cs] by simp
next
  case (PropertyDeclaration ms nm cs)
  then show ?thesis
    using listWeight_size_list [of ms] listWeight_size_list [of cs] by simp
next
  case (FunctionDeclaration ms nmo cs)
  then show ?thesis
    using listWeight_size_list [of ms] listWeight_size_list [of cs] listWeight_optionalNode [of nmo]
    by simp
next
  case (ArrayLiteralExpression es)
  then show ?thesis
    using listWeight_size_list [of es] by simp
next
  case (FunctionExpression cs)
  then show ?thesis
    using listWeight_size_list [of cs] by simp
next
  case (Other cs)
  then show ?thesis
    using listWeight_size_list [of cs] by simp
qed simp_all

text \<open>
  The variable declaration the tracer looks for: its name is the variable's, and its
  initializer is an arrow function whose body is \<^verbatim>\<open>import('...')\<close>, or is such a call itself.
\<close>

definition importCallPath :: "node \<Rightarrow> string option" where
  "importCallPath x =
     (case x of
        CallExpression callee targs args \<Rightarrow>
          if callee = ImportKeyword then
            (case args of
               [] \<Rightarrow> None
             | a # as \<Rightarrow> if isStringLiteral a then Some (nodeText a) else None)
          else None
      | _ \<Rightarrow> None)"

definition declaredImportPath :: "string \<Rightarrow> node \<Rightarrow> string option" where
  "declaredImportPath variableName n =
     (case n of
        VariableDeclaration nm ts init \<Rightarrow>
          if isIdentifier nm \<and> nodeText nm = variableName then
            (case init of
               None \<Rightarrow> None
             | Some i \<Rightarrow>
                 (case i of
                    ArrowFunction ps body \<Rightarrow> importCallPath body
                  | _ \<Rightarrow> importCallPath i))
          else None
      | _ \<Rightarrow> None)"

text \<open>
  \<^verbatim>\<open>visit\<close> of \<^verbatim>\<open>findControllerImportPath\<close>: the node's own answer if it has one, else the
  first truthy answer among its children (\<^verbatim>\<open>forEachChild\<close> stops at the first truthy value,
  and the empty string is not truthy).
\<close>

function visitImport :: "string \<Rightarrow> node \<Rightarrow> string option"
  and visitImportChildren :: "string \<Rightarrow> node list \<Rightarrow> string option" where
  "visitImport v n =
     (case declaredImportPath v n of
        Some s \<Rightarrow> Some s
      | None \<Rightarrow> visitImportChildren v (children n))"
| "visitImportChildren v [] = None"
| "visitImportChildren v (c # cs) =
     (case visitImport v c of
        Some s \<Rightarrow> if s \<noteq> [] then Some s else visitImportChildren v cs
      | None \<Rightarrow> visitImportChildren v cs)"
  by pat_completeness auto

termination visitImport
proof (relation "measures [\<lambda>x. case x of Inl (v, n) \<Rightarrow> 3 * size n | Inr (v, cs) \<Rightarrow> listWeight cs,
                          \<lambda>x. case x of Inl (v, n) \<Rightarrow> 1 | Inr (v, cs) \<Rightarrow> 0]")
  show "wf (measures [\<lambda>x. case x of Inl (v :: string, n) \<Rightarrow> 3 * size n | Inr (v :: string, cs) \<Rightarrow> listWeight cs,
                      \<lambda>x. case x of Inl (v, n) \<Rightarrow> 1 | Inr (v, cs) \<Rightarrow> (0::nat)])"
    by simp
qed (use children_weight in \<open>auto simp: le_less\<close>)

definition findControllerImportPath :: "string \<Rightarrow> node \<Rightarrow> string option" where
  "findControllerImportPath variableName root = visitImport variableName root"

text \<open>
  A walk that collects candidates: what the node itself contributes, then its children
  from left to right, each with its reference.
\<close>

function collect :: "(nodeRef \<Rightarrow> node \<Rightarrow> (node \<times> nat) list) \<Rightarrow> nodeRef \<Rightarrow> node \<Rightarrow> (node \<times> nat) list"
  and collectChildren ::
    "(nodeRef \<Rightarrow> node \<Rightarrow> (node \<times> nat) list) \<Rightarrow> nodeRef \<Rightarrow> nat \<Rightarrow> node list \<Rightarrow> (node \<times> nat) list" where
  "collect f r n = f r n @ collectChildren f r 0 (children n)"
| "collectChildren f r i [] = []"
| "collectChildren f r i (c # cs) = collect f (i # r) c @ collectChildren f r (Suc i) cs"
  by pat_completeness auto

termination collect
proof (relation "measures [\<lambda>x. case x of Inl (f, r, n) \<Rightarrow> 3 * size n | Inr (f, r, i, cs) \<Rightarrow> listWeight cs,
                          \<lambda>x. case x of Inl (f, r, n) \<Rightarrow> 1 | Inr (f, r, i, cs) \<Rightarrow> 0]")
  show "wf (measures [\<lambda>x. case x of Inl (f, r, n) \<Rightarrow> 3 * size n | Inr (f, r, i, cs) \<Rightarrow> listWeight cs,
                      \<lambda>x. case x of Inl (f :: nodeRef \<Rightarrow> node \<Rightarrow> (node \<times> nat) list, r :: nodeRef, n) \<Rightarrow> 1
                                    | Inr (f, r, i :: nat, cs) \<Rightarrow> (0::nat)])"
    by simp
qed (use children_weight in \<open>auto simp: le_less\<close>)

subsection \<open>Finding the member in the target file\<close>

definition hasModifier :: "node \<Rightarrow> node list \<Rightarrow> bool" where
  "hasModifier k modifiers = (k \<in> set modifiers)"

definition classPriority :: "node option \<Rightarrow> nat option" where
  "classPriority n =
     (case n of
        Some (ClassDeclaration ms cs) \<Rightarrow>
          if hasModifier ExportKeyword ms \<and> hasModifier DefaultKeyword ms then Some 1 else Some 2
      | _ \<Rightarrow> None)"

text \<open>The loop over \<^verbatim>\<open>parent\<close>, started at the reference \<open>r\<close>; priority 2 when no class is met.\<close>

fun enclosingClassPriority :: "node \<Rightarrow> nodeRef \<Rightarrow> nat" where
  "enclosingClassPriority root [] =
     (case classPriority (getNode root []) of Some p \<Rightarrow> p | None \<Rightarrow> 2)"
| "enclosingClassPriority root (i # up) =
     (case classPriority (getNode root (i # up)) of
        Some p \<Rightarrow> p
      | None \<Rightarrow> enclosingClassPriority root up)"

definition methodPriority :: "node \<Rightarrow> nodeRef \<Rightarrow> nat" where
  "methodPriority root r =
     (case r of
        [] \<Rightarrow> 2
      | i # up \<Rightarrow> enclosingClassPriority root up)"

definition isNamed :: "string \<Rightarrow> node \<Rightarrow> bool" where
  "isNamed methodName nm = (isIdentifier nm \<and> nodeText nm = methodName)"

definition bestCandidatesAt :: "node \<Rightarrow> string \<Rightarrow> nodeRef \<Rightarrow> node \<Rightarrow> (node \<times> nat) list" where
  "bestCandidatesAt root methodName r n =
     (case n of
        MethodDeclaration ms nm cs \<Rightarrow>
          if isNamed methodName nm then [(nm, methodPriority root r)] else []
      | PropertyDeclaration ms nm cs \<Rightarrow>
          if isNamed methodName nm then [(nm, 2)] else []
      | FunctionDeclaration ms nmo cs \<Rightarrow>
          (case nmo of
             None \<Rightarrow> []
           | Some nm \<Rightarrow>
               if isNamed methodName nm \<and> hasModifier ExportKeyword ms then [(nm, 3)] else [])
      | _ \<Rightarrow> [])"

text \<open>
  \<^verbatim>\<open>candidates.sort((a, b) => a.priority - b.priority)\<close> is a stable sort; the first entry
  of the sorted array is returned.
\<close>

definition firstByPriority :: "(node \<times> nat) list \<Rightarrow> node option" where
  "firstByPriority candidates =
     (if candidates = [] then None else Some (fst (hd (sort_key snd candidates))))"

definition findBestMethodNameNode :: "node \<Rightarrow> string \<Rightarrow> node option" where
  "findBestMethodNameNode root methodName =
     firstByPriority (collect (bestCandidatesAt root methodName) [] root)"

fun nodeStart :: "node \<Rightarrow> nat" where
  "nodeStart (Identifier s e t) = s"
| "nodeStart n = 0"

fun nodeEnd :: "node \<Rightarrow> nat" where
  "nodeEnd (Identifier s e t) = e"
| "nodeEnd n = 0"

definition nameLocation :: "string \<Rightarrow> string \<Rightarrow> node \<Rightarrow> location" where
  "nameLocation path text' nm =
     \<lparr>uri = path, rangeStart = positionAt text' (nodeStart nm), rangeEnd = positionAt text' (nodeEnd nm)\<rparr>"

definition findMethodInControllerFile :: "env \<Rightarrow> string \<Rightarrow> string \<Rightarrow> location option" where
  "findMethodInControllerFile e controllerPath methodName =
     (case readFileSync e controllerPath of
        None \<Rightarrow> None
      | Some text' \<Rightarrow>
          (case findBestMethodNameNode (sfRoot (createSourceFile e controllerPath text')) methodName of
             None \<Rightarrow> None
           | Some best \<Rightarrow> Some (nameLocation controllerPath text' best)))"

text \<open>
  \<^verbatim>\<open>findMethodInController\<close>, for a controller that is open in the editor, collects methods
  and exported functions only.
\<close>

definition documentCandidatesAt :: "node \<Rightarrow> string \<Rightarrow> nodeRef \<Rightarrow> node \<Rightarrow> (node \<times> nat) list" where
  "documentCandidatesAt root methodName r n =
     (case n of
        MethodDeclaration ms nm cs \<Rightarrow>
          if isNamed methodName nm then [(nm, methodPriority root r)] else []
      | FunctionDeclaration ms nmo cs \<Rightarrow>
          (case nmo of
             None \<Rightarrow> []
           | Some nm \<Rightarrow>
               if isNamed methodName nm \<and> hasModifier ExportKeyword ms then [(nm, 3)] else [])
      | _ \<Rightarrow> [])"

definition findMethodInController :: "env \<Rightarrow> string \<times> string \<Rightarrow> string \<Rightarrow> location option" where
  "findMethodInController e document methodName =
     (case document of
        (fileName, text') \<Rightarrow>
          (let root = sfRoot (createSourceFile e fileName text')
           in (case firstByPriority (collect (documentCandidatesAt root methodName) [] root) of
                 None \<Rightarrow> None
               | Some best \<Rightarrow> Some (nameLocation fileName text' best))))"

subsection \<open>Resolving a classified click\<close>

text \<open>\<^verbatim>\<open>!methodName\<close>: the method name is missing or the empty string.\<close>

definition noMethodName :: "string option \<Rightarrow> bool" where
  "noMethodName methodName = (methodName = None \<or> methodName = Some [])"

definition resolveControllerDefinition ::
  "env \<Rightarrow> provider \<Rightarrow> string \<Rightarrow> string option \<Rightarrow> string \<Rightarrow> (fault + location option) \<times> provider" where
  "resolveControllerDefinition e st controllerName methodName projectRoot =
     (case resolveControllerPath e st controllerName projectRoot of
        (Inl f, st') \<Rightarrow> (Inl f, st')
      | (Inr None, st') \<Rightarrow> (Inr None, st')
      | (Inr (Some controllerPath), st') \<Rightarrow>
          if noMethodName methodName then (Inr (Some (topOfFile controllerPath)), st')
          else
            (case findMethodInControllerFile e controllerPath (the methodName) of
               Some methodLocation \<Rightarrow> (Inr (Some methodLocation), st')
             | None \<Rightarrow> (Inr (Some (topOfFile controllerPath)), st')))"

definition resolveControllerVariableDefinition ::
  "env \<Rightarrow> provider \<Rightarrow> string \<Rightarrow> string option \<Rightarrow> string \<Rightarrow> sourceFile
     \<Rightarrow> (fault + location option) \<times> provider" where
  "resolveControllerVariableDefinition e st variableName methodName projectRoot sf =
     (case findControllerImportPath variableName (sfRoot sf) of
        None \<Rightarrow> (Inr None, st)
      | Some importPath \<Rightarrow>
          if importPath = [] then (Inr None, st)
          else
            (case resolveControllerFromImportPath e st importPath projectRoot of
               (Inl f, st') \<Rightarrow> (Inl f, st')
             | (Inr None, st') \<Rightarrow> (Inr None, st')
             | (Inr (Some loc), st') \<Rightarrow>
                 if noMethodName methodName then (Inr (Some (topOfFile (uri loc))), st')
                 else
                   (case (case find (\<lambda>doc. fst doc = uri loc) (textDocuments e) of
                            Some controllerDocument \<Rightarrow>
                              findMethodInController e controllerDocument (the methodName)
                          | None \<Rightarrow> findMethodInControllerFile e (uri loc) (the methodName)) of
                      Some methodLocation \<Rightarrow> (Inr (Some methodLocation), st')
                    | None \<Rightarrow> (Inr (Some (topOfFile (uri loc))), st'))))"

text \<open>
  \<^verbatim>\<open>routesMapping.replace("/*", "")\<close> throws a \<^verbatim>\<open>TypeError\<close> when the mapping is truthy and not
  a string: only a string has a method of that name.
\<close>

definition localRoutesModule :: "env \<Rightarrow> string \<Rightarrow> sourceFile \<Rightarrow> location option" where
  "localRoutesModule e moduleName sf =
     (let localPath = path_join [path_dirname (sfFileName sf), moduleName @ ''.ts'']
      in if existsSync e localPath then Some (topOfFile localPath) else None)"

definition resolveRoutesModule ::
  "env \<Rightarrow> provider \<Rightarrow> string \<Rightarrow> string \<Rightarrow> sourceFile \<Rightarrow> (fault + location option) \<times> provider" where
  "resolveRoutesModule e st moduleName projectRoot sf =
     (case getPackageImports e st projectRoot of
        (Inl f, st') \<Rightarrow> (Inl f, st')
      | (Inr imports, st') \<Rightarrow>
          (case getProperty e imports ''#routes/*'' of
             Inl f \<Rightarrow> (Inl f, st')
           | Inr None \<Rightarrow> (Inr (localRoutesModule e moduleName sf), st')
           | Inr (Some routesMapping) \<Rightarrow>
               if \<not> truthy routesMapping then (Inr (localRoutesModule e moduleName sf), st')
               else
                 (case routesMapping of
                    JStr m \<Rightarrow>
                      (let basePath = path_resolve (cwd e) [projectRoot, replaceString m ''/*'' []]
                       in (case firstExisting e
                                  [path_join [basePath, moduleName @ ''.ts''],
                                   path_join [basePath, moduleName @ ''.js'']] of
                             Some p \<Rightarrow> (Inr (Some (topOfFile p)), st')
                           | None \<Rightarrow> (Inr (localRoutesModule e moduleName sf), st')))
                  | _ \<Rightarrow> (Inl TypeError, st'))))"

definition resolveDefinition ::
  "env \<Rightarrow> provider \<Rightarrow> ClickContext \<Rightarrow> string \<Rightarrow> sourceFile \<Rightarrow> (fault + location option) \<times> provider" where
  "resolveDefinition e st context' projectRoot sf =
     (case context' of
        ControllerVariable variableName methodName \<Rightarrow>
          if variableName = [] then (Inr None, st)
          else resolveControllerVariableDefinition e st variableName methodName projectRoot sf
      | MethodString controllerName methodName \<Rightarrow>
          if controllerName = [] then (Inr None, st)
          else resolveControllerDefinition e st controllerName (Some methodName) projectRoot
      | ControllerImportPath importPath \<Rightarrow>
          if importPath = [] then (Inr None, st)
          else resolveControllerFromImportPath e st importPath projectRoot
      | RoutesModule moduleName \<Rightarrow>
          if moduleName = [] then (Inr None, st)
          else resolveRoutesModule e st moduleName projectRoot sf)"

subsection \<open>The provider's entry point\<close>

fun isControllerVariable :: "ClickContext \<Rightarrow> bool" where
  "isControllerVariable (ControllerVariable v m) = True"
| "isControllerVariable c = False"

text \<open>
  The context of the located node: a token or a syntax list is neither an identifier nor
  a string literal.
\<close>

definition locatedContext :: "sourceFile \<Rightarrow> syntaxTree \<Rightarrow> ClickContext option" where
  "locatedContext sf located =
     (case located of
        SyntaxNode s en r cs \<Rightarrow>
          (case r of
             None \<Rightarrow> None
           | Some nodeRef' \<Rightarrow> analyzeClickContext (sfRoot sf) nodeRef'))"

definition originLink :: "string \<Rightarrow> syntaxTree \<Rightarrow> location \<Rightarrow> locationLink" where
  "originLink text' located resolved =
     (case located of
        SyntaxNode s en r cs \<Rightarrow>
          \<lparr>originStart = positionAt text' s, originEnd = positionAt text' en,
           targetUri = uri resolved, targetStart = rangeStart resolved,
           targetEnd = rangeEnd resolved\<rparr>)"

text \<open>The statements inside the \<^verbatim>\<open>try\<close> of \<^verbatim>\<open>provideDefinition\<close>.\<close>

definition provideDefinitionBody ::
  "env \<Rightarrow> provider \<Rightarrow> string \<Rightarrow> string \<Rightarrow> nat \<Rightarrow> (fault + definitionResult option) \<times> provider" where
  "provideDefinitionBody e st filePath text' offset =
     (let sf = createSourceFile e filePath text'
      in (case findNodeAtPosition sf offset of
            None \<Rightarrow> (Inr None, st)
          | Some located \<Rightarrow>
              if \<not> isSupportedFile filePath then (Inr None, st)
              else
                (case findProjectRoot e filePath of
                   None \<Rightarrow> (Inr None, st)
                 | Some projectRoot \<Rightarrow>
                     (case locatedContext sf located of
                        None \<Rightarrow> (Inr None, st)
                      | Some clickContext \<Rightarrow>
                          (case resolveDefinition e st clickContext projectRoot sf of
                             (Inl f, st') \<Rightarrow> (Inl f, st')
                           | (Inr None, st') \<Rightarrow> (Inr None, st')
                           | (Inr (Some resolved), st') \<Rightarrow>
                               if isControllerVariable clickContext then
                                 (Inr (Some (LinkResult [originLink text' located resolved])), st')
                               else (Inr (Some (LocationResult resolved)), st'))))))"

text \<open>\<^verbatim>\<open>provideDefinition\<close>: the \<^verbatim>\<open>catch\<close> turns every fault into \<^verbatim>\<open>null\<close>.\<close>

definition provideDefinition ::
  "env \<Rightarrow> provider \<Rightarrow> string \<Rightarrow> string \<Rightarrow> nat \<Rightarrow> (fault + definitionResult option) \<times> provider" where
  "provideDefinition e st filePath text' offset =
     (case provideDefinitionBody e st filePath text' offset of
        (Inl error, st') \<Rightarrow> (Inr None, st')
      | (Inr result, st') \<Rightarrow> (Inr result, st'))"

section \<open>The project of the specification's scenario\<close>

text \<open>
  The project root is \<^verbatim>\<open>/proj\<close>. The routes file \<^verbatim>\<open>/proj/start/routes.ts\<close> has two lines,
  \<^verbatim>\<open>const UserController = () => import('#controllers/user_controller')\<close> and
  \<^verbatim>\<open>router.get('/users', [UserController, 'index'])\<close>; the controller file holds
  \<^verbatim>\<open>export default class UserController { index() {} }\<close>. The trees are the ones the
  TypeScript parser builds for these texts, with the offsets of their tokens. The import
  maps of the projects below are objects, so no member of a built-in prototype other than
  \<^verbatim>\<open>Object.prototype\<close> is read, and \<open>builtinMember\<close> is left empty.
\<close>

definition routesPath :: string where
  "routesPath = ''/proj/start/routes.ts''"

definition controllerPath :: string where
  "controllerPath = ''/proj/app/controllers/user_controller.ts''"

definition manifestPath :: string where
  "manifestPath = ''/proj/package.json''"

definition manifestText :: string where
  \<open>manifestText = ''{"imports": {"#controllers/*": "./app/controllers/*.js"}}''\<close>

definition manifestJson :: json where
  "manifestJson = JObj [(''imports'', JObj [(''#controllers/*'', JStr ''./app/controllers/*.js'')])]"

definition routesText :: string where
  "routesText =
     ''const UserController = () => import('' @ [CHR 0x27] @ ''#controllers/user_controller''
       @ [CHR 0x27] @ '')'' @ [CHR 0x0A] @
     ''router.get('' @ [CHR 0x27] @ ''/users'' @ [CHR 0x27] @ '', [UserController, ''
       @ [CHR 0x27] @ ''index'' @ [CHR 0x27] @ ''])'' @ [CHR 0x0A]"

definition routesRoot :: node where
  "routesRoot =
     Other
       [Other [Other [VariableDeclaration (Identifier 6 20 ''UserController'') []
          (Some (ArrowFunction [Other []]
             (CallExpression ImportKeyword [] [StringLiteral ''#controllers/user_controller''])))]],
        Other [CallExpression
          (PropertyAccessExpression (Identifier 68 74 ''router'') (Identifier 75 78 ''get'')) []
          [StringLiteral ''/users'',
           ArrayLiteralExpression [Identifier 90 104 ''UserController'', StringLiteral ''index'']]],
        Other []]"

definition routesTokens :: syntaxTree where
  "routesTokens =
     SyntaxNode 0 116 (Some [])
       [SyntaxNode 0 115 None
          [SyntaxNode 0 67 (Some [0])
             [SyntaxNode 0 67 (Some [0, 0])
                [SyntaxNode 0 5 None [],
                 SyntaxNode 6 67 None
                   [SyntaxNode 6 67 (Some [0, 0, 0])
                      [SyntaxNode 6 20 (Some [0, 0, 0, 0]) [],
                       SyntaxNode 21 22 None [],
                       SyntaxNode 23 67 (Some [1, 0, 0, 0])
                         [SyntaxNode 23 24 None [],
                          SyntaxNode 24 24 None [],
                          SyntaxNode 24 25 None [],
                          SyntaxNode 26 28 (Some [0, 1, 0, 0, 0]) [],
                          SyntaxNode 29 67 (Some [1, 1, 0, 0, 0])
                            [SyntaxNode 29 35 (Some [0, 1, 1, 0, 0, 0]) [],
                             SyntaxNode 35 36 None [],
                             SyntaxNode 36 66 None
                               [SyntaxNode 36 66 (Some [1, 1, 1, 0, 0, 0]) []],
                             SyntaxNode 66 67 None []]]]]]],
           SyntaxNode 68 115 (Some [1])
             [SyntaxNode 68 115 (Some [0, 1])
                [SyntaxNode 68 78 (Some [0, 0, 1])
                   [SyntaxNode 68 74 (Some [0, 0, 0, 1]) [],
                    SyntaxNode 74 75 None [],
                    SyntaxNode 75 78 (Some [1, 0, 0, 1]) []],
                 SyntaxNode 78 79 None [],
                 SyntaxNode 79 114 None
                   [SyntaxNode 79 87 (Some [1, 0, 1]) [],
                    SyntaxNode 87 88 None [],
                    SyntaxNode 89 114 (Some [2, 0, 1])
                      [SyntaxNode 89 90 None [],
                       SyntaxNode 90 113 None
                         [SyntaxNode 90 104 (Some [0, 2, 0, 1]) [],
                          SyntaxNode 104 105 None [],
                          SyntaxNode 106 113 (Some [1, 2, 0, 1]) []],
                       SyntaxNode 113 114 None []]],
                 SyntaxNode 114 115 None []]]],
        SyntaxNode 116 116 (Some [2]) []]"

definition routesSourceFile :: sourceFile where
  "routesSourceFile =
     \<lparr>sfFileName = routesPath, sfText = routesText, sfRoot = routesRoot, sfTokens = routesTokens\<rparr>"

definition controllerText :: string where
  "controllerText = ''export default class UserController { index() {} }''"

definition controllerRoot :: node where
  "controllerRoot =
     Other
       [ClassDeclaration [ExportKeyword, DefaultKeyword]
          [Identifier 21 35 ''UserController'',
           MethodDeclaration [] (Identifier 38 43 ''index'') [Other []]],
        Other []]"

definition controllerSourceFile :: sourceFile where
  "controllerSourceFile =
     \<lparr>sfFileName = controllerPath, sfText = controllerText, sfRoot = controllerRoot,
      sfTokens = SyntaxNode 0 50 (Some []) []\<rparr>"

definition scenarioEnv :: env where
  "scenarioEnv =
     \<lparr>cwd = ''/proj'',
      existsSync = (\<lambda>p. p = manifestPath \<or> p = routesPath \<or> p = controllerPath),
      statSync = (\<lambda>p. if p = manifestPath then Some 1700000000000 else None),
      readFileSync = (\<lambda>p. if p = manifestPath then Some manifestText
                           else if p = controllerPath then Some controllerText
                           else if p = routesPath then Some routesText else None),
      JSON_parse = (\<lambda>s. if s = manifestText then Some manifestJson else None),
      createSourceFile = (\<lambda>f t. if t = routesText then routesSourceFile\<lparr>sfFileName := f\<rparr>
                                 else if t = controllerText then controllerSourceFile\<lparr>sfFileName := f\<rparr>
                                 else \<lparr>sfFileName = f, sfText = t, sfRoot = Other [],
                                       sfTokens = SyntaxNode 0 (length t) (Some []) []\<rparr>),
      textDocuments = [(routesPath, routesText)],
      builtinMember = (\<lambda>v k. None)\<rparr>"

section \<open>Notions the specification uses\<close>

text \<open>
  The directory segments of a path: its components between separators, the last one (the
  file's name) left out.
\<close>

definition directorySegments :: "string \<Rightarrow> string list" where
  "directorySegments p = butlast (splitOn CHR ''/'' p)"

text \<open>
  The string literal is the second element of a two-element array literal whose first
  element is an identifier; the result is that identifier's text.
\<close>

definition secondOfIdentifierTuple :: "node \<Rightarrow> nodeRef \<Rightarrow> string option" where
  "secondOfIdentifierTuple root r =
     (case r of
        [] \<Rightarrow> None
      | i # up \<Rightarrow>
          (case getNode root up of
             Some (ArrayLiteralExpression es) \<Rightarrow>
               if length es = 2 \<and> i = 1 \<and> isIdentifier (es ! 0) then Some (nodeText (es ! 0))
               else None
           | _ \<Rightarrow> None))"

text \<open>
  The conditions under which the specification expects a controller variable: the second
  argument of the innermost enclosing routing call is a tuple of an identifier and a string
  literal whose first element is the clicked node, or it is the clicked identifier itself.
\<close>

definition secondArgumentRef :: "node \<Rightarrow> nodeRef \<Rightarrow> nodeRef option" where
  "secondArgumentRef root call =
     (case getNode root call of
        Some (CallExpression e targs args) \<Rightarrow>
          if 2 \<le> length args then Some (Suc (Suc (length targs)) # call) else None
      | _ \<Rightarrow> None)"

definition clickedTupleController :: "node \<Rightarrow> nodeRef \<Rightarrow> bool" where
  "clickedTupleController root r =
     (case findRouterCall root r of
        None \<Rightarrow> False
      | Some call \<Rightarrow>
          (case secondArgumentRef root call of
             None \<Rightarrow> False
           | Some a \<Rightarrow>
               (case getNode root a of
                  Some (ArrayLiteralExpression es) \<Rightarrow>
                    length es = 2 \<and> isIdentifier (es ! 0) \<and> isStringLiteral (es ! 1) \<and> r = 0 # a
                | _ \<Rightarrow> False)))"

definition clickedBareHandler :: "node \<Rightarrow> nodeRef \<Rightarrow> bool" where
  "clickedBareHandler root r =
     (case findRouterCall root r of
        None \<Rightarrow> False
      | Some call \<Rightarrow>
          (case secondArgumentRef root call of
             None \<Rightarrow> False
           | Some a \<Rightarrow>
               (case getNode root a of
                  Some (Identifier s e t) \<Rightarrow> r = a
                | _ \<Rightarrow> False)))"

text \<open>
  A routes file with the single statement \<^verbatim>\<open>router.get('/users', UserController)\<close>.
\<close>

definition bareHandlerRoot :: node where
  "bareHandlerRoot =
     Other
       [Other [CallExpression
          (PropertyAccessExpression (Identifier 0 6 ''router'') (Identifier 7 10 ''get'')) []
          [StringLiteral ''/users'', Identifier 21 35 ''UserController'']],
        Other []]"

text \<open>
  The candidates scored from the top of the tree down instead of by a walk up the parents
  of each method: \<open>ctx\<close> is the priority a method has at this place, 1 below a class
  declaration that is exported and the default export, 2 below any other class declaration,
  and 2 as long as no class declaration has been entered. A property declaration scores 2
  and an exported function declaration 3, wherever they stand.
\<close>

definition classContext :: "node \<Rightarrow> nat \<Rightarrow> nat" where
  "classContext n ctx =
     (case n of
        ClassDeclaration ms cs \<Rightarrow>
          if hasModifier ExportKeyword ms \<and> hasModifier DefaultKeyword ms then 1 else 2
      | _ \<Rightarrow> ctx)"

definition scoredDeclaration :: "nat \<Rightarrow> string \<Rightarrow> node \<Rightarrow> (node \<times> nat) list" where
  "scoredDeclaration ctx memberName n =
     (case n of
        MethodDeclaration ms nm cs \<Rightarrow> if isNamed memberName nm then [(nm, ctx)] else []
      | PropertyDeclaration ms nm cs \<Rightarrow> if isNamed memberName nm then [(nm, 2)] else []
      | FunctionDeclaration ms nmo cs \<Rightarrow>
          (case nmo of
             None \<Rightarrow> []
           | Some nm \<Rightarrow>
               if isNamed memberName nm \<and> hasModifier ExportKeyword ms then [(nm, 3)] else [])
      | _ \<Rightarrow> [])"

function scoredCandidates :: "nat \<Rightarrow> string \<Rightarrow> node \<Rightarrow> (node \<times> nat) list"
  and scoredCandidatesIn :: "nat \<Rightarrow> string \<Rightarrow> node list \<Rightarrow> (node \<times> nat) list" where
  "scoredCandidates ctx memberName n =
     scoredDeclaration ctx memberName n
       @ scoredCandidatesIn (classContext n ctx) memberName (children n)"
| "scoredCandidatesIn ctx memberName [] = []"
| "scoredCandidatesIn ctx memberName (c # cs) =
     scoredCandidates ctx memberName c @ scoredCandidatesIn ctx memberName cs"
  by pat_completeness auto

termination scoredCandidates
proof (relation "measures [\<lambda>x. case x of Inl (ctx, m, n) \<Rightarrow> 3 * size n | Inr (ctx, m, cs) \<Rightarrow> listWeight cs,
                          \<lambda>x. case x of Inl (ctx, m, n) \<Rightarrow> 1 | Inr (ctx, m, cs) \<Rightarrow> 0]")
  show "wf (measures [\<lambda>x. case x of Inl (ctx, m, n) \<Rightarrow> 3 * size n | Inr (ctx, m, cs) \<Rightarrow> listWeight cs,
                      \<lambda>x. case x of Inl (ctx :: nat, m :: string, n) \<Rightarrow> 1
                                    | Inr (ctx :: nat, m :: string, cs) \<Rightarrow> (0::nat)])"
    by simp
qed (use children_weight in \<open>auto simp: le_less\<close>)

text \<open>
  The candidates as the specification words them: a method is a candidate inside a class,
  with priority 1 when that class (the nearest class declaration around it) is exported and
  the default export and priority 2 inside any other class; a property declaration scores
  2; a function declaration is a candidate, with priority 3, when it is exported and
  top-level, that is, a statement of the file. \<open>cls\<close> is the priority of the class around
  this place, if there is one, and \<open>depth\<close> the number of nodes above this one.
\<close>

definition claimedClass :: "node \<Rightarrow> nat option \<Rightarrow> nat option" where
  "claimedClass n cls =
     (case n of
        ClassDeclaration ms cs \<Rightarrow>
          if hasModifier ExportKeyword ms \<and> hasModifier DefaultKeyword ms then Some 1 else Some 2
      | _ \<Rightarrow> cls)"

definition claimedDeclaration ::
  "nat option \<Rightarrow> nat \<Rightarrow> string \<Rightarrow> node \<Rightarrow> (node \<times> nat) list" where
  "claimedDeclaration cls depth memberName n =
     (case n of
        MethodDeclaration ms nm cs \<Rightarrow>
          (case cls of
             None \<Rightarrow> []
           | Some p \<Rightarrow> if isNamed memberName nm then [(nm, p)] else [])
      | PropertyDeclaration ms nm cs \<Rightarrow> if isNamed memberName nm then [(nm, 2)] else []
      | FunctionDeclaration ms nmo cs \<Rightarrow>
          (case nmo of
             None \<Rightarrow> []
           | Some nm \<Rightarrow>
               if isNamed memberName nm \<and> hasModifier ExportKeyword ms \<and> depth = 1
               then [(nm, 3)] else [])
      | _ \<Rightarrow> [])"

function claimedCandidates ::
    "nat option \<Rightarrow> nat \<Rightarrow> string \<Rightarrow> node \<Rightarrow> (node \<times> nat) list"
  and claimedCandidatesIn ::
    "nat option \<Rightarrow> nat \<Rightarrow> string \<Rightarrow> node list \<Rightarrow> (node \<times> nat) list" where
  "claimedCandidates cls depth memberName n =
     claimedDeclaration cls depth memberName n
       @ claimedCandidatesIn (claimedClass n cls) (Suc depth) memberName (children n)"
| "claimedCandidatesIn cls depth memberName [] = []"
| "claimedCandidatesIn cls depth memberName (c # cs) =
     claimedCandidates cls depth memberName c @ claimedCandidatesIn cls depth memberName cs"
  by pat_completeness auto

termination claimedCandidates
proof (relation "measures [\<lambda>x. case x of Inl (cls, d, m, n) \<Rightarrow> 3 * size n
                                       | Inr (cls, d, m, cs) \<Rightarrow> listWeight cs,
                          \<lambda>x. case x of Inl (cls, d, m, n) \<Rightarrow> 1 | Inr (cls, d, m, cs) \<Rightarrow> 0]")
  show "wf (measures [\<lambda>x. case x of Inl (cls, d, m, n) \<Rightarrow> 3 * size n
                                    | Inr (cls, d, m, cs) \<Rightarrow> listWeight cs,
                      \<lambda>x. case x of Inl (cls :: nat option, d :: nat, m :: string, n) \<Rightarrow> 1
                                    | Inr (cls :: nat option, d :: nat, m :: string, cs) \<Rightarrow> (0::nat)])"
    by simp
qed (use children_weight in \<open>auto simp: le_less\<close>)

text \<open>
  The candidate chosen is the first, in document order, whose priority no other candidate
  undercuts.
\<close>

definition lowestPriorityFirst :: "(node \<times> nat) list \<Rightarrow> node option" where
  "lowestPriorityFirst cs = map_option fst (find (\<lambda>c. \<forall>d \<in> set cs. snd c \<le> snd d) cs)"

text \<open>
  A target file with \<^verbatim>\<open>export class A { show() {} }\<close>,
  \<^verbatim>\<open>export default class B { show() {} }\<close> and \<^verbatim>\<open>export function show() {}\<close>, one per line.
\<close>

definition threeShowsRoot :: node where
  "threeShowsRoot =
     Other
       [ClassDeclaration [ExportKeyword]
          [Identifier 13 14 ''A'', MethodDeclaration [] (Identifier 17 21 ''show'') [Other []]],
        ClassDeclaration [ExportKeyword, DefaultKeyword]
          [Identifier 50 51 ''B'', MethodDeclaration [] (Identifier 54 58 ''show'') [Other []]],
        FunctionDeclaration [ExportKeyword] (Some (Identifier 82 86 ''show'')) [Other []],
        Other []]"

text \<open>
  A target file with \<^verbatim>\<open>export function show() {}\<close> and \<^verbatim>\<open>const handlers = { show() {} }\<close>,
  one per line: its \<^verbatim>\<open>show\<close> method is inside an object literal, not inside a class. And a
  target file with \<^verbatim>\<open>namespace N { export function show() {} }\<close>, whose exported function
  is not top-level.
\<close>

definition objectMethodRoot :: node where
  "objectMethodRoot =
     Other
       [FunctionDeclaration [ExportKeyword] (Some (Identifier 16 20 ''show'')) [Other []],
        Other [Other [VariableDeclaration (Identifier 32 40 ''handlers'') []
          (Some (Other [MethodDeclaration [] (Identifier 45 49 ''show'') [Other []]]))]],
        Other []]"

definition namespaceFunctionRoot :: node where
  "namespaceFunctionRoot =
     Other
       [Other [Identifier 10 11 ''N'',
          Other [FunctionDeclaration [ExportKeyword] (Some (Identifier 30 34 ''show'')) [Other []]]],
        Other []]"

text \<open>
  An underscore between every letter of \<^verbatim>\<open>a-z\<close> and a letter of \<^verbatim>\<open>A-Z\<close> that follows it.
\<close>

fun insertUnderscores :: "string \<Rightarrow> string" where
  "insertUnderscores (a # b # r) =
     (if isLowerAZ a \<and> isUpperAZ b then a # CHR ''_'' # insertUnderscores (b # r)
      else a # insertUnderscores (b # r))"
| "insertUnderscores s = s"

text \<open>
  The file name as the specification words it: an underscore at every boundary between a
  lower-case letter and an upper-case letter that follows it, the whole then lowercased.
  The lower-case letters below 256 are \<^verbatim>\<open>a-z\<close>, the micro sign \<^verbatim>\<open>U+00B5\<close> and \<^verbatim>\<open>U+00DF\<close> to
  \<^verbatim>\<open>U+00FF\<close> without the division sign \<^verbatim>\<open>U+00F7\<close>; the upper-case letters are the ones
  \<^verbatim>\<open>toLowerCase\<close> changes.
\<close>

definition isLowerCase :: "char \<Rightarrow> bool" where
  "isLowerCase c =
     (isLowerAZ c \<or> (of_char c :: nat) = 181
      \<or> (223 \<le> (of_char c :: nat) \<and> (of_char c :: nat) \<noteq> 247))"

fun insertAtCaseBoundaries :: "string \<Rightarrow> string" where
  "insertAtCaseBoundaries (a # b # r) =
     (if isLowerCase a \<and> isUpperCase b then a # CHR ''_'' # insertAtCaseBoundaries (b # r)
      else a # insertAtCaseBoundaries (b # r))"
| "insertAtCaseBoundaries s = s"

text \<open>
  The controller name \<^verbatim>\<open>CafeController\<close> written with \<^verbatim>\<open>U+00E9\<close>, e with acute accent, for its
  first \<^verbatim>\<open>e\<close>, and the scenario's project with the one controller file
  \<^verbatim>\<open>caf\<close>\<^verbatim>\<open>U+00E9\<close>\<^verbatim>\<open>_controller.ts\<close>.
\<close>

definition accentedName :: string where
  "accentedName = ''Caf'' @ [CHR 0xE9] @ ''Controller''"

definition accentedEnv :: env where
  "accentedEnv =
     scenarioEnv\<lparr>existsSync :=
       (\<lambda>p. p = manifestPath \<or> p = ''/proj/app/controllers/caf'' @ [CHR 0xE9] @ ''_controller.ts'')\<rparr>"

text \<open>
  What it means that a probe returns the first existing candidate, and nothing when none
  exists.
\<close>

definition firstExistingOf :: "env \<Rightarrow> string list \<Rightarrow> string option \<Rightarrow> bool" where
  "firstExistingOf e candidates result =
     (case result of
        None \<Rightarrow> \<forall>p \<in> set candidates. \<not> existsSync e p
      | Some p \<Rightarrow>
          \<exists>i < length candidates. candidates ! i = p \<and> existsSync e p
             \<and> (\<forall>j < i. \<not> existsSync e (candidates ! j)))"

text \<open>
  A path segment that normalization keeps as it is, a relative path made of such segments
  (no empty segment, so no separator at either end and none doubled), and an absolute path
  in normal form other than the root directory.
\<close>

definition normalSegment :: "string \<Rightarrow> bool" where
  "normalSegment seg = (seg \<noteq> [] \<and> seg \<noteq> ''.'' \<and> seg \<noteq> ''..'')"

definition normalSegments :: "string \<Rightarrow> bool" where
  "normalSegments p = list_all normalSegment (splitOn CHR ''/'' p)"

definition absoluteNormal :: "string \<Rightarrow> bool" where
  "absoluteNormal p = (p \<noteq> [] \<and> hd p = CHR ''/'' \<and> normalSegments (tl p))"




text \<open>
  The manifest's text can be read but does not parse to a value whose \<^verbatim>\<open>imports\<close> can be
  read: \<^verbatim>\<open>JSON.parse\<close> throws, or yields \<^verbatim>\<open>null\<close>.
\<close>

definition manifestUnparsable :: "env \<Rightarrow> string \<Rightarrow> bool" where
  "manifestUnparsable e projectRoot =
     (case readFileSync e (path_join [projectRoot, ''package.json'']) of
        None \<Rightarrow> False
      | Some content \<Rightarrow>
          (case JSON_parse e content of
             None \<Rightarrow> True
           | Some packageJson \<Rightarrow> packageJson = JNull))"

text \<open>
  The call has to load the manifest: its modification time can be read and is not the
  cached timestamp.
\<close>

definition manifestLoads :: "env \<Rightarrow> provider \<Rightarrow> string \<Rightarrow> bool" where
  "manifestLoads e st projectRoot =
     (case statSync e (path_join [projectRoot, ''package.json'']) of
        None \<Rightarrow> False
      | Some mtime \<Rightarrow> cacheTimestamps st (path_join [projectRoot, ''package.json'']) \<noteq> Some mtime)"

text \<open>A project whose manifest is the text \<^verbatim>\<open>{\<close>, which does not parse.\<close>

definition brokenEnv :: env where
  "brokenEnv =
     \<lparr>cwd = ''/proj'',
      existsSync = (\<lambda>p. p = manifestPath \<or> p = controllerPath),
      statSync = (\<lambda>p. if p = manifestPath then Some 1700000000000 else None),
      readFileSync = (\<lambda>p. if p = manifestPath then Some ''{'' else None),
      JSON_parse = (\<lambda>s. None),
      createSourceFile = (\<lambda>f t. \<lparr>sfFileName = f, sfText = t, sfRoot = Other [],
                                   sfTokens = SyntaxNode 0 (length t) (Some []) []\<rparr>),
      textDocuments = [],
      builtinMember = (\<lambda>v k. None)\<rparr>"

text \<open>
  A project whose manifest has no \<^verbatim>\<open>imports\<close> field, with the modification time of the
  scenario's manifest, and a file system on which every path exists.
\<close>

definition noImportsText :: string where
  \<open>noImportsText = ''{"name": "app"}''\<close>

definition noImportsEnv :: env where
  \<open>noImportsEnv =
     \<lparr>cwd = ''/proj'',
      existsSync = (\<lambda>p. True),
      statSync = (\<lambda>p. if p = manifestPath then Some 1700000000000 else None),
      readFileSync = (\<lambda>p. if p = manifestPath then Some noImportsText else None),
      JSON_parse = (\<lambda>s. if s = noImportsText then Some (JObj [(''name'', JStr ''app'')]) else None),
      createSourceFile = (\<lambda>f t. \<lparr>sfFileName = f, sfText = t, sfRoot = Other [],
                                   sfTokens = SyntaxNode 0 (length t) (Some []) []\<rparr>),
      textDocuments = [],
      builtinMember = (\<lambda>v k. None)\<rparr>\<close>

text \<open>The provider after a request that loaded the scenario's manifest.\<close>

definition staleProvider :: provider where
  "staleProvider = snd (getPackageImports scenarioEnv newProvider ''/proj'')"

text \<open>The scenario's project at a moment when \<^verbatim>\<open>fs.statSync\<close> throws for every path.\<close>

definition statlessEnv :: env where
  "statlessEnv = scenarioEnv\<lparr>statSync := (\<lambda>p. None)\<rparr>"

text \<open>
  The alias entry that a click on a controller needs is missing from the alias table:
  for a method string the entry \<^verbatim>\<open>#controllers/*\<close>; for an import path, clicked itself or
  declared for the clicked variable, the entry of that path and the entry \<^verbatim>\<open>#controllers/*\<close>.
\<close>

definition aliasEntryMissing :: "env \<Rightarrow> json \<Rightarrow> node \<Rightarrow> ClickContext \<Rightarrow> bool" where
  "aliasEntryMissing e imports root c =
     (case c of
        MethodString controllerName methodName \<Rightarrow>
          getProperty e imports ''#controllers/*'' = Inr None
      | ControllerImportPath importPath \<Rightarrow>
          getProperty e imports importPath = Inr None
          \<and> getProperty e imports ''#controllers/*'' = Inr None
      | ControllerVariable variableName methodName \<Rightarrow>
          (case findControllerImportPath variableName root of
             None \<Rightarrow> False
           | Some importPath \<Rightarrow>
               getProperty e imports importPath = Inr None
               \<and> getProperty e imports ''#controllers/*'' = Inr None)
      | RoutesModule moduleName \<Rightarrow> False)"

text \<open>
  A project whose manifest is the text \<^verbatim>\<open>{\<close>, with the routes file \<^verbatim>\<open>router.group(users)\<close>
  and the file \<^verbatim>\<open>/proj/start/users.ts\<close> beside it.
\<close>

definition groupRoutesText :: string where
  "groupRoutesText = ''router.group(users)'' @ [CHR 0x0A]"

definition groupRoutesRoot :: node where
  "groupRoutesRoot =
     Other
       [Other [CallExpression
          (PropertyAccessExpression (Identifier 0 6 ''router'') (Identifier 7 12 ''group'')) []
          [Identifier 13 18 ''users'']],
        Other []]"

definition groupRoutesTokens :: syntaxTree where
  "groupRoutesTokens =
     SyntaxNode 0 20 (Some [])
       [SyntaxNode 0 19 None
          [SyntaxNode 0 19 (Some [0])
             [SyntaxNode 0 19 (Some [0, 0])
                [SyntaxNode 0 12 (Some [0, 0, 0])
                   [SyntaxNode 0 6 (Some [0, 0, 0, 0]) [],
                    SyntaxNode 6 7 None [],
                    SyntaxNode 7 12 (Some [1, 0, 0, 0]) []],
                 SyntaxNode 12 13 None [],
                 SyntaxNode 13 18 None
                   [SyntaxNode 13 18 (Some [1, 0, 0]) []],
                 SyntaxNode 18 19 None []]]],
        SyntaxNode 20 20 (Some [1]) []]"

definition groupEnv :: env where
  "groupEnv =
     \<lparr>cwd = ''/proj'',
      existsSync = (\<lambda>p. p = manifestPath \<or> p = routesPath \<or> p = ''/proj/start/users.ts''),
      statSync = (\<lambda>p. if p = manifestPath then Some 1700000000000 else None),
      readFileSync = (\<lambda>p. if p = manifestPath then Some ''{''
                           else if p = routesPath then Some groupRoutesText else None),
      JSON_parse = (\<lambda>s. None),
      createSourceFile = (\<lambda>f t. if t = groupRoutesText
                                 then \<lparr>sfFileName = f, sfText = t, sfRoot = groupRoutesRoot,
                                       sfTokens = groupRoutesTokens\<rparr>
                                 else \<lparr>sfFileName = f, sfText = t, sfRoot = Other [],
                                       sfTokens = SyntaxNode 0 (length t) (Some []) []\<rparr>),
      textDocuments = [(routesPath, groupRoutesText)],
      builtinMember = (\<lambda>v k. None)\<rparr>"

section \<open>Properties\<close>

subsection \<open>Strings and paths\<close>

lemma splitOn_not_Nil: "splitOn sep s \<noteq> []"
  by (induction s) (auto split: list.splits)

lemma splitOn_append_sep: "splitOn sep (a @ sep # b) = splitOn sep a @ splitOn sep b"
proof (induction a)
  case Nil
  show ?case by simp
next
  case (Cons c a)
  obtain w ws where w: "splitOn sep a = w # ws"
    using splitOn_not_Nil [of sep a] by (cases "splitOn sep a") auto
  with Cons show ?case by simp
qed

lemma splitOn_no_sep: "sep \<notin> set s \<Longrightarrow> splitOn sep s = [s]"
  by (induction s) auto

lemma str_includes_iff: "str_includes s p \<longleftrightarrow> (\<exists>pre post. s = pre @ p @ post)"
proof (induction s)
  case Nil
  show ?case by auto
next
  case (Cons c cs)
  have sw: "startsWith (c # cs) p \<longleftrightarrow> (\<exists>post. c # cs = p @ post)"
    unfolding startsWith_def
    by (metis append_eq_conv_conj append_take_drop_id)
  show ?case
  proof
    assume "str_includes (c # cs) p"
    then consider "startsWith (c # cs) p" | "str_includes cs p" by auto
    then show "\<exists>pre post. c # cs = pre @ p @ post"
    proof cases
      case 1
      with sw obtain post where "c # cs = [] @ p @ post" by auto
      then show ?thesis by blast
    next
      case 2
      with Cons obtain pre post where "cs = pre @ p @ post" by auto
      then have "c # cs = (c # pre) @ p @ post" by simp
      then show ?thesis by blast
    qed
  next
    assume "\<exists>pre post. c # cs = pre @ p @ post"
    then obtain pre post where eq: "c # cs = pre @ p @ post" by auto
    show "str_includes (c # cs) p"
    proof (cases pre)
      case Nil
      with eq have "c # cs = p @ post" by simp
      then have "startsWith (c # cs) p" using sw by blast
      then show ?thesis unfolding str_includes.simps by (rule disjI1)
    next
      case (Cons d pre')
      with eq have "cs = pre' @ p @ post" by simp
      then have "str_includes cs p" using Cons.IH by blast
      then show ?thesis unfolding str_includes.simps by (rule disjI2)
    qed
  qed
qed

lemma includes_routes_segment:
  assumes "str_includes p ''/routes/''"
  shows "''routes'' \<in> set (directorySegments p)"
proof -
  from assms obtain pre post where "p = pre @ ''/routes/'' @ post"
    unfolding str_includes_iff by auto
  then have p: "p = pre @ CHR ''/'' # (''routes'' @ CHR ''/'' # post)" by simp
  have "splitOn CHR ''/'' p = splitOn CHR ''/'' pre @ splitOn CHR ''/'' ''routes'' @ splitOn CHR ''/'' post"
    unfolding p splitOn_append_sep ..
  moreover have "splitOn CHR ''/'' ''routes'' = [''routes'']"
    by (rule splitOn_no_sep) simp
  moreover obtain w ws where "splitOn CHR ''/'' post = w # ws"
    using splitOn_not_Nil [of "CHR ''/''" post] by (cases "splitOn CHR ''/'' post") auto
  ultimately have "splitOn CHR ''/'' p = (splitOn CHR ''/'' pre @ [''routes'']) @ w # ws" by simp
  then have "butlast (splitOn CHR ''/'' p) = (splitOn CHR ''/'' pre @ [''routes'']) @ butlast (w # ws)"
    by (simp add: butlast_append)
  then show ?thesis unfolding directorySegments_def by simp
qed

lemma endsWith_iff: "endsWith s p \<longleftrightarrow> (\<exists>pre. s = pre @ p)"
proof
  assume "endsWith s p"
  then have "drop (length s - length p) s = p"
    by (simp add: endsWith_def)
  then have "s = take (length s - length p) s @ p"
    by (metis append_take_drop_id)
  then show "\<exists>pre. s = pre @ p" ..
next
  assume "\<exists>pre. s = pre @ p"
  then obtain pre where "s = pre @ p" ..
  then show "endsWith s p"
    by (simp add: endsWith_def)
qed

lemma endsWith_drop: "endsWith s (a @ b) \<Longrightarrow> endsWith s b"
proof -
  assume "endsWith s (a @ b)"
  then obtain pre where "s = pre @ a @ b"
    unfolding endsWith_iff ..
  then have "s = (pre @ a) @ b" by simp
  then show "endsWith s b"
    unfolding endsWith_iff ..
qed

subsection \<open>Files the provider does not serve\<close>

text \<open>
  C10. A request for a file whose normalized path has no directory segment named
  \<^verbatim>\<open>routes\<close> and does not end with \<^verbatim>\<open>start/routes.ts\<close> returns no result (and leaves the
  provider as it was), whatever the text, the offset, the file system and the manifest.
\<close>

theorem unsupported_file_no_result:
  assumes "''routes'' \<notin> set (directorySegments (path_normalize filePath))"
    and "\<not> endsWith (path_normalize filePath) ''start/routes.ts''"
  shows "provideDefinition e st filePath text' offset = (Inr None, st)"
proof -
  have "\<not> str_includes (path_normalize filePath) ''/routes/''"
    using assms(1) includes_routes_segment by blast
  moreover have "\<not> endsWith (path_normalize filePath) ''/start/routes.ts''"
    using assms(2) endsWith_drop [of "path_normalize filePath" "''/''" "''start/routes.ts''"] by auto
  ultimately have "\<not> isSupportedFile filePath"
    by (simp add: isSupportedFile_def Let_def)
  then show ?thesis
    by (simp add: provideDefinition_def provideDefinitionBody_def Let_def split: option.splits)
qed

theorem unsupported_file_no_result_witness:
  "''routes'' \<notin> set (directorySegments (path_normalize controllerPath))
   \<and> \<not> endsWith (path_normalize controllerPath) ''start/routes.ts''
   \<and> provideDefinition scenarioEnv newProvider controllerPath controllerText 40 = (Inr None, newProvider)"
proof -
  have h1: "''routes'' \<notin> set (directorySegments (path_normalize controllerPath))"
    by code_simp
  have h2: "\<not> endsWith (path_normalize controllerPath) ''start/routes.ts''"
    by code_simp
  from unsupported_file_no_result [OF h1 h2] h1 h2 show ?thesis
    by blast
qed

subsection \<open>Clicks on string literals\<close>

lemma tupleController_Some: "tupleController root r current = Some c \<Longrightarrow> r = 1 # current"
  by (auto simp: tupleController_def elementsIndexOf_def
           split: option.splits node.splits if_splits list.splits)

lemma tupleController_None: "r \<noteq> 1 # current \<Longrightarrow> tupleController root r current = None"
  using tupleController_Some by (cases "tupleController root r current") auto

lemma methodStringLoop_ancestors:
  "r = pre @ current \<Longrightarrow>
   methodStringLoop root r current =
     (if r \<noteq> [] \<and> length pre \<le> 1 then tupleController root r (tl r) else None)"
proof (induction current arbitrary: pre)
  case Nil
  then show ?case
    by (cases pre) (auto simp: tupleController_None)
next
  case (Cons i up)
  from Cons.prems have r: "r = (pre @ [i]) @ up" by simp
  note IH = Cons.IH [OF r]
  show ?case
  proof (cases pre)
    case Nil
    with Cons.prems have "r = i # up" by simp
    then show ?thesis using IH Nil
      by (simp add: tupleController_None)
  next
    case (Cons j pre')
    show ?thesis
    proof (cases pre')
      case Nil
      with Cons Cons.prems have "r = j # i # up" by simp
      then show ?thesis using IH Cons Nil
        by (simp split: option.splits)
    next
      case (Cons k pre'')
      with \<open>pre = j # pre'\<close> Cons.prems have "r \<noteq> 1 # i # up" by auto
      then show ?thesis using IH Cons \<open>pre = j # pre'\<close>
        by (simp add: tupleController_None)
    qed
  qed
qed

lemma isMethodStringInTuple_parent:
  "isMethodStringInTuple root r = secondOfIdentifierTuple root r"
proof (cases r)
  case Nil
  then show ?thesis
    by (simp add: isMethodStringInTuple_def secondOfIdentifierTuple_def tupleController_None)
next
  case (Cons i up)
  have "methodStringLoop root r r = tupleController root r (tl r)"
    using methodStringLoop_ancestors [of r "[]" r root] Cons by simp
  then show ?thesis using Cons
    by (auto simp: isMethodStringInTuple_def secondOfIdentifierTuple_def tupleController_def
                   elementsIndexOf_def split: option.splits node.splits)
qed

text \<open>
  C2. A located string literal is classified in a fixed order: as a method string when it
  is the second element of a two-element array literal whose first element is an
  identifier (with that identifier's text as controller name and the literal's text as
  method name); else as a controller import path when its text begins with
  \<^verbatim>\<open>#controllers/\<close>; else not at all. A literal that is the first element of an array never
  yields a method string.
\<close>

theorem string_literal_classification:
  assumes "getNode root r = Some (StringLiteral t)"
  shows "analyzeClickContext root r =
           (case secondOfIdentifierTuple root r of
              Some c \<Rightarrow> Some (MethodString c t)
            | None \<Rightarrow>
                if startsWith t ''#controllers/'' then Some (ControllerImportPath t) else None)
         \<and> (\<forall>up c m. r = 0 # up \<longrightarrow> analyzeClickContext root r \<noteq> Some (MethodString c m))"
proof -
  have main: "analyzeClickContext root r =
           (case secondOfIdentifierTuple root r of
              Some c \<Rightarrow> Some (MethodString c t)
            | None \<Rightarrow>
                if startsWith t ''#controllers/'' then Some (ControllerImportPath t) else None)"
    using assms
    by (simp add: analyzeClickContext_def analyzeStringLiteralClick_def isMethodStringInTuple_parent)
  have "secondOfIdentifierTuple root (0 # up) = None" for up
    by (simp add: secondOfIdentifierTuple_def split: option.splits node.splits)
  with main show ?thesis
    by (auto split: if_splits)
qed

theorem string_literal_classification_witness:
  "getNode routesRoot [1, 2, 0, 1] = Some (StringLiteral ''index'')
   \<and> secondOfIdentifierTuple routesRoot [1, 2, 0, 1] = Some ''UserController''
   \<and> analyzeClickContext routesRoot [1, 2, 0, 1] = Some (MethodString ''UserController'' ''index'')"
proof -
  have h: "getNode routesRoot [1, 2, 0, 1] = Some (StringLiteral ''index'')"
    by code_simp
  have s: "secondOfIdentifierTuple routesRoot [1, 2, 0, 1] = Some ''UserController''"
    by code_simp
  from string_literal_classification [OF h] h s show ?thesis
    by simp
qed

subsection \<open>Clicks on identifiers\<close>

lemma descend_append:
  "descend n (xs @ ys) = (case descend n xs of None \<Rightarrow> None | Some m \<Rightarrow> descend m ys)"
  by (induction n xs rule: descend.induct) auto

lemma getNode_Cons:
  "getNode root (i # r) =
     (case getNode root r of
        None \<Rightarrow> None
      | Some n \<Rightarrow> if i < length (children n) then Some (children n ! i) else None)"
  by (simp add: getNode_def descend_append split: option.splits)

lemma second_argument_node:
  assumes "secondArgumentRef root call = Some a"
  shows "\<exists>e targs args. getNode root call = Some (CallExpression e targs args)
           \<and> 2 \<le> length args \<and> getNode root a = Some (args ! 1)"
proof -
  from assms obtain e targs args where c: "getNode root call = Some (CallExpression e targs args)"
    and l: "2 \<le> length args" and a: "a = Suc (Suc (length targs)) # call"
    by (auto simp: secondArgumentRef_def split: option.splits node.splits if_splits)
  have "(e # targs @ args) ! Suc (Suc (length targs)) = args ! 1"
    by (simp add: nth_append)
  with c l a have "getNode root a = Some (args ! 1)"
    by (simp add: getNode_Cons)
  with c l show ?thesis by blast
qed

lemma second_argument_handler:
  assumes "secondArgumentRef root call = Some a" and "getNode root a = Some n"
  shows "extractHandlerFromRouterCall root call = parseHandlerArgument n"
  using second_argument_node [OF assms(1)] assms(2)
  by (auto simp: extractHandlerFromRouterCall_def callArguments_def)

lemma tuple_click_context:
  assumes "getNode root r = Some (Identifier s e t)" and "clickedTupleController root r"
  shows "analyzeClickContext root r = Some (ControllerVariable t None)"
proof -
  from assms(2) obtain call a es where call: "findRouterCall root r = Some call"
    and a: "secondArgumentRef root call = Some a"
    and es: "getNode root a = Some (ArrayLiteralExpression es)"
    and shape: "length es = 2" "isIdentifier (es ! 0)" "isStringLiteral (es ! 1)"
    and r: "r = 0 # a"
    by (auto simp: clickedTupleController_def split: option.splits node.splits)
  from second_argument_handler [OF a es] shape
  have h: "extractHandlerFromRouterCall root call =
             Some (ControllerHandler (nodeText (es ! 0)) (nodeText (es ! 1)))"
    by (simp add: parseHandlerArgument_def)
  from es shape r have "isFirstOfTuple root r"
    by (simp add: isFirstOfTuple_def)
  with call h have "handlerContext root r t = Some (ControllerVariable t None)"
    by (simp add: handlerContext_def)
  with assms(1) show ?thesis
    by (simp add: analyzeClickContext_def analyzeIdentifierClick_def)
qed

lemma bare_click_context:
  assumes "getNode root r = Some (Identifier s e t)" and "clickedBareHandler root r" and "t \<noteq> []"
  shows "analyzeClickContext root r = Some (ControllerVariable t None)"
proof -
  from assms(2) obtain call where call: "findRouterCall root r = Some call"
    and a: "secondArgumentRef root call = Some r"
    by (auto simp: clickedBareHandler_def split: option.splits node.splits)
  from second_argument_handler [OF a assms(1)]
  have h: "extractHandlerFromRouterCall root call = Some (ControllerVariableHandler t)"
    by (simp add: parseHandlerArgument_def)
  with call assms(3) have "handlerContext root r t = Some (ControllerVariable t None)"
    by (simp add: handlerContext_def)
  with assms(1) show ?thesis
    by (simp add: analyzeClickContext_def analyzeIdentifierClick_def)
qed

lemma controller_variable_iff:
  assumes "getNode root r = Some (Identifier s e t)"
  shows "analyzeClickContext root r = Some (ControllerVariable v m) \<longleftrightarrow>
           m = None \<and>
           (\<exists>call h. findRouterCall root r = Some call
              \<and> extractHandlerFromRouterCall root call = Some h
              \<and> (h = ControllerVariableHandler v \<and> v \<noteq> []
                 \<or> (\<forall>hv. h = ControllerVariableHandler hv \<longrightarrow> hv = [])
                    \<and> isFirstOfTuple root r \<and> v = t))"
  using assms
  by (auto simp: analyzeClickContext_def analyzeIdentifierClick_def handlerContext_def
           split: option.splits HandlerInfo.splits if_splits)

text \<open>
  What \<^verbatim>\<open>analyzeIdentifierClick\<close> does for a located identifier. In the two situations the
  specification names, the context is a controller variable named by the clicked
  identifier. In general a controller variable is produced exactly when a handler is found
  for the innermost routing call and either the handler is a bare identifier with a
  non-empty name (the variable is then the handler's name, whichever identifier of the call
  was clicked) or the clicked node is the first element of a two-element array literal
  whose second element is a string literal.
\<close>

theorem controller_variable_classification:
  assumes "getNode root r = Some (Identifier s e t)"
  shows "(clickedTupleController root r \<longrightarrow>
            analyzeClickContext root r = Some (ControllerVariable t None))
       \<and> (clickedBareHandler root r \<and> t \<noteq> [] \<longrightarrow>
            analyzeClickContext root r = Some (ControllerVariable t None))
       \<and> (analyzeClickContext root r = Some (ControllerVariable v m) \<longleftrightarrow>
            m = None \<and>
            (\<exists>call h. findRouterCall root r = Some call
               \<and> extractHandlerFromRouterCall root call = Some h
               \<and> (h = ControllerVariableHandler v \<and> v \<noteq> []
                  \<or> (\<forall>hv. h = ControllerVariableHandler hv \<longrightarrow> hv = [])
                     \<and> isFirstOfTuple root r \<and> v = t)))"
proof (intro conjI impI)
  assume "clickedTupleController root r"
  with assms show "analyzeClickContext root r = Some (ControllerVariable t None)"
    by (rule tuple_click_context)
next
  assume "clickedBareHandler root r \<and> t \<noteq> []"
  with assms show "analyzeClickContext root r = Some (ControllerVariable t None)"
    by (blast intro: bare_click_context)
next
  show "analyzeClickContext root r = Some (ControllerVariable v m) \<longleftrightarrow>
            m = None \<and>
            (\<exists>call h. findRouterCall root r = Some call
               \<and> extractHandlerFromRouterCall root call = Some h
               \<and> (h = ControllerVariableHandler v \<and> v \<noteq> []
                  \<or> (\<forall>hv. h = ControllerVariableHandler hv \<longrightarrow> hv = [])
                     \<and> isFirstOfTuple root r \<and> v = t))"
    by (rule controller_variable_iff [OF assms])
qed

theorem controller_variable_classification_witness:
  "getNode routesRoot [0, 2, 0, 1] = Some (Identifier 90 104 ''UserController'')
   \<and> clickedTupleController routesRoot [0, 2, 0, 1]
   \<and> analyzeClickContext routesRoot [0, 2, 0, 1] = Some (ControllerVariable ''UserController'' None)"
proof -
  have h: "getNode routesRoot [0, 2, 0, 1] = Some (Identifier 90 104 ''UserController'')"
    by code_simp
  have c: "clickedTupleController routesRoot [0, 2, 0, 1]"
    by code_simp
  from controller_variable_classification [OF h] h c show ?thesis
    by blast
qed

text \<open>
  C3. In \<^verbatim>\<open>router.get('/users', UserController)\<close> a click on the receiver \<^verbatim>\<open>router\<close> is
  classified as the controller variable \<^verbatim>\<open>UserController\<close>, although the clicked node is
  neither the handler identifier nor the first element of a handler tuple.
\<close>

theorem receiver_click_counterexample:
  "getNode bareHandlerRoot [0, 0, 0, 0] = Some (Identifier 0 6 ''router'')
   \<and> analyzeClickContext bareHandlerRoot [0, 0, 0, 0] = Some (ControllerVariable ''UserController'' None)
   \<and> \<not> clickedTupleController bareHandlerRoot [0, 0, 0, 0]
   \<and> \<not> clickedBareHandler bareHandlerRoot [0, 0, 0, 0]"
  by code_simp

subsection \<open>The member locator\<close>

lemma enclosing_class_context:
  assumes "getNode root r = Some n"
  shows "enclosingClassPriority root r = classContext n (methodPriority root r)"
  using assms
  by (cases r) (auto simp: methodPriority_def classContext_def classPriority_def split: node.splits)

lemma bestCandidatesAt_scored:
  "bestCandidatesAt root m r n = scoredDeclaration (methodPriority root r) m n"
  by (simp add: bestCandidatesAt_def scoredDeclaration_def)

lemma collect_scored_candidates:
  "f = bestCandidatesAt root m \<Longrightarrow> getNode root r = Some n \<Longrightarrow>
     collect f r n = scoredCandidates (methodPriority root r) m n"
  and "f = bestCandidatesAt root m \<Longrightarrow>
     \<exists>p. getNode root r' = Some p \<and> cs = drop i (children p) \<Longrightarrow>
     collectChildren f r' i cs = scoredCandidatesIn (enclosingClassPriority root r') m cs"
proof (induction f r n and f r' i cs rule: collect_collectChildren.induct)
  case (1 f r n)
  from 1(3) have "\<exists>p. getNode root r = Some p \<and> children n = drop 0 (children p)" by simp
  with 1(1) [OF 1(2)]
  have "collectChildren f r 0 (children n)
          = scoredCandidatesIn (enclosingClassPriority root r) m (children n)" .
  with 1(2,3) show ?case
    by (simp add: bestCandidatesAt_scored enclosing_class_context)
next
  case (2 f r i)
  show ?case by simp
next
  case (3 f r i c cs)
  from 3(4) obtain p where p: "getNode root r = Some p" and d: "c # cs = drop i (children p)"
    by blast
  from d have i: "i < length (children p)"
    by (metis drop_all list.distinct(1) not_le)
  with d have c: "c = children p ! i"
    by (metis Cons_nth_drop_Suc list.inject)
  from d i have cs: "cs = drop (Suc i) (children p)"
    by (metis Cons_nth_drop_Suc list.inject)
  from p i c have "getNode root (i # r) = Some c"
    by (simp add: getNode_Cons)
  with 3(1) [OF 3(3)]
  have 1: "collect f (i # r) c = scoredCandidates (methodPriority root (i # r)) m c" .
  from p cs have "\<exists>p. getNode root r = Some p \<and> cs = drop (Suc i) (children p)" by blast
  with 3(2) [OF 3(3)]
  have 2: "collectChildren f r (Suc i) cs = scoredCandidatesIn (enclosingClassPriority root r) m cs" .
  from 1 2 show ?case
    by (simp add: methodPriority_def)
qed

lemma hd_insort_key:
  "hd (insort_key f x ys) = (if ys = [] \<or> f x \<le> f (hd ys) then x else hd ys)"
  by (cases ys) auto

lemma sort_key_Nil_iff: "sort_key f xs = [] \<longleftrightarrow> xs = []"
  by (metis length_sort list.size(3) length_0_conv)

lemma hd_sort_key_first_least:
  fixes f :: "'a \<Rightarrow> nat"
  assumes "xs \<noteq> []"
  shows "find (\<lambda>c. \<forall>d \<in> set xs. f c \<le> f d) xs = Some (hd (sort_key f xs))
         \<and> (\<forall>d \<in> set xs. f (hd (sort_key f xs)) \<le> f d)"
  using assms
proof (induction xs)
  case Nil
  then show ?case by simp
next
  case (Cons x xs)
  show ?case
  proof (cases "xs = []")
    case True
    then show ?thesis by simp
  next
    case False
    let ?h = "hd (sort_key f xs)"
    from Cons.IH [OF False]
    have fnd: "find (\<lambda>c. \<forall>d \<in> set xs. f c \<le> f d) xs = Some ?h"
      and least: "\<forall>d \<in> set xs. f ?h \<le> f d" by auto
    from fnd have hin: "?h \<in> set xs"
      by (auto simp: find_Some_iff)
    have srt: "sort_key f xs \<noteq> []"
      using False by (simp add: sort_key_Nil_iff)
    show ?thesis
    proof (cases "f x \<le> f ?h")
      case True
      with least have "\<forall>d \<in> set (x # xs). f x \<le> f d" by auto
      moreover from True srt have "hd (sort_key f (x # xs)) = x"
        by (simp add: hd_insort_key)
      ultimately show ?thesis by simp
    next
      case False
      then have lt: "f ?h < f x" by simp
      with srt have hd: "hd (sort_key f (x # xs)) = ?h"
        by (simp add: hd_insort_key)
      have nx: "\<not> (\<forall>d \<in> set (x # xs). f x \<le> f d)"
      proof
        assume "\<forall>d \<in> set (x # xs). f x \<le> f d"
        with hin have "f x \<le> f ?h" by simp
        with lt show False by simp
      qed
      have eq: "(\<forall>d \<in> set (x # xs). f c \<le> f d) \<longleftrightarrow> (\<forall>d \<in> set xs. f c \<le> f d)" if "c \<in> set xs" for c
      proof
        assume "\<forall>d \<in> set (x # xs). f c \<le> f d"
        then show "\<forall>d \<in> set xs. f c \<le> f d" by simp
      next
        assume a: "\<forall>d \<in> set xs. f c \<le> f d"
        with hin have "f c \<le> f ?h" by blast
        with lt have "f c \<le> f x" by simp
        with a show "\<forall>d \<in> set (x # xs). f c \<le> f d" by simp
      qed
      have "find (\<lambda>c. \<forall>d \<in> set (x # xs). f c \<le> f d) (x # xs)
              = find (\<lambda>c. \<forall>d \<in> set (x # xs). f c \<le> f d) xs"
        using nx by (simp only: find.simps if_False)
      also have "\<dots> = find (\<lambda>c. \<forall>d \<in> set xs. f c \<le> f d) xs"
        by (rule find_cong) (use eq in auto)
      also have "\<dots> = Some ?h"
        by (rule fnd)
      finally have fx: "find (\<lambda>c. \<forall>d \<in> set (x # xs). f c \<le> f d) (x # xs) = Some ?h" .
      have "\<forall>d \<in> set (x # xs). f ?h \<le> f d"
        using least lt by simp
      with fx hd show ?thesis by (simp only:)
    qed
  qed
qed

lemma firstByPriority_lowest: "firstByPriority cs = lowestPriorityFirst cs"
proof (cases "cs = []")
  case True
  then show ?thesis by (simp add: firstByPriority_def lowestPriorityFirst_def)
next
  case False
  from hd_sort_key_first_least [OF False, of snd] False show ?thesis
    by (simp add: firstByPriority_def lowestPriorityFirst_def)
qed

text \<open>
  C6, as the code has it. \<^verbatim>\<open>findBestMethodNameNode\<close> collects every method declaration,
  property declaration and exported function declaration whose name is the member's,
  wherever it stands in the file. A method has priority 1 when the nearest class
  declaration around it is exported and the default export, and priority 2 otherwise:
  inside another class declaration, or inside no class declaration at all. A property
  declaration has priority 2, an exported function declaration priority 3, top-level or
  not. The stable sort by priority selects the first candidate of lowest priority in
  document order. With a method of an exported class, a method of the default-exported
  class and an exported function, all named \<^verbatim>\<open>show\<close>, the name token of the default-exported
  class's method is chosen.
\<close>

theorem member_locator_scoring:
  "findBestMethodNameNode root memberName = lowestPriorityFirst (scoredCandidates 2 memberName root)"
proof -
  have "getNode root [] = Some root"
    by (simp add: getNode_def)
  with collect_scored_candidates(1) [of "bestCandidatesAt root memberName" root memberName "[]" root]
  have "collect (bestCandidatesAt root memberName) [] root = scoredCandidates 2 memberName root"
    by (simp add: methodPriority_def)
  then show ?thesis
    by (simp add: findBestMethodNameNode_def firstByPriority_lowest)
qed

theorem member_locator_scoring_witness:
  "scoredCandidates 2 ''show'' threeShowsRoot
     = [(Identifier 17 21 ''show'', 2), (Identifier 54 58 ''show'', 1), (Identifier 82 86 ''show'', 3)]
   \<and> findBestMethodNameNode threeShowsRoot ''show'' = Some (Identifier 54 58 ''show'')"
proof -
  have c: "scoredCandidates 2 ''show'' threeShowsRoot
     = [(Identifier 17 21 ''show'', 2), (Identifier 54 58 ''show'', 1), (Identifier 82 86 ''show'', 3)]"
    by code_simp
  have "lowestPriorityFirst [(Identifier 17 21 ''show'', 2), (Identifier 54 58 ''show'', 1),
          (Identifier 82 86 ''show'', 3)] = Some (Identifier 54 58 ''show'')"
    by (simp add: lowestPriorityFirst_def)
  with member_locator_scoring [of threeShowsRoot "''show''"] c show ?thesis
    by simp
qed

text \<open>
  C6, as the specification words it, fails. It counts a method only inside a class and a
  function only at top level. In the file with an exported function \<^verbatim>\<open>show\<close> and an object
  literal with a method \<^verbatim>\<open>show\<close>, the specification's only candidate is the function, whose
  name token it selects; the code scores the object literal's method 2 and selects its
  name token. In the file with the exported function \<^verbatim>\<open>show\<close> inside a namespace the
  specification has no candidate; the code selects the function's name token.
\<close>

theorem member_outside_class_counterexample:
  "lowestPriorityFirst (claimedCandidates None 0 ''show'' objectMethodRoot)
     = Some (Identifier 16 20 ''show'')
   \<and> findBestMethodNameNode objectMethodRoot ''show'' = Some (Identifier 45 49 ''show'')
   \<and> lowestPriorityFirst (claimedCandidates None 0 ''show'' namespaceFunctionRoot) = None
   \<and> findBestMethodNameNode namespaceFunctionRoot ''show'' = Some (Identifier 30 34 ''show'')
   \<and> lowestPriorityFirst (claimedCandidates None 0 ''show'' threeShowsRoot)
       = Some (Identifier 54 58 ''show'')"
  by code_simp

subsection \<open>Resolving a bare controller name\<close>

lemma upper_not_lower: "isUpperAZ b \<Longrightarrow> \<not> isLowerAZ b"
  by (simp add: isUpperAZ_def isLowerAZ_def)

lemma insertUnderscores_upper: "isUpperAZ b \<Longrightarrow> insertUnderscores (b # r) = b # insertUnderscores r"
  by (cases r) (simp_all add: upper_not_lower)

lemma replaceLowerUpper_insertUnderscores: "replaceLowerUpper s = insertUnderscores s"
  by (induction s rule: replaceLowerUpper.induct) (simp_all add: insertUnderscores_upper)

lemma firstExisting_find: "firstExisting e ps = find (existsSync e) ps"
  by (induction ps) simp_all

lemma firstExisting_first: "firstExistingOf e ps (firstExisting e ps)"
proof (cases "find (existsSync e) ps")
  case None
  then have "\<forall>p \<in> set ps. \<not> existsSync e p"
    by (simp add: find_None_iff)
  with None show ?thesis
    by (simp add: firstExistingOf_def firstExisting_find)
next
  case (Some p)
  then obtain i where "i < length ps" "existsSync e (ps ! i)" "p = ps ! i"
      "\<forall>j < i. \<not> existsSync e (ps ! j)"
    unfolding find_Some_iff by blast
  then have "\<exists>i < length ps. ps ! i = p \<and> existsSync e p \<and> (\<forall>j < i. \<not> existsSync e (ps ! j))"
    by blast
  with Some show ?thesis
    by (simp add: firstExistingOf_def firstExisting_find)
qed

text \<open>
  C5, as the code has it. With an entry under \<^verbatim>\<open>#controllers/*\<close> in the import map that is
  truthy and converts to a string, \<^verbatim>\<open>resolveControllerPath\<close> derives the file name by
  putting an underscore between every letter of \<^verbatim>\<open>a-z\<close> and a letter of \<^verbatim>\<open>A-Z\<close> that follows
  it and lowercasing the result (\<^verbatim>\<open>UserPostController\<close> gives \<^verbatim>\<open>user_post_controller\<close>), and
  probes, under the directory of the mapping resolved against the project root, the
  derived name with \<^verbatim>\<open>.ts\<close> and \<^verbatim>\<open>.js\<close>, then \<^verbatim>\<open>index.ts\<close> and \<^verbatim>\<open>index.js\<close> in the directory
  of the controller name, then the controller name with \<^verbatim>\<open>.ts\<close> and \<^verbatim>\<open>.js\<close>; it returns the
  first that exists and nothing when none exists.
\<close>

theorem controller_name_resolution:
  assumes "fst (getPackageImports e st projectRoot) = Inr imports"
    and "getProperty e imports ''#controllers/*'' = Inr (Some mapping)"
    and "truthy mapping"
    and "js_String mapping = Some mappingText"
  shows "snakeCaseName controllerName = toLowerCase (insertUnderscores controllerName)
       \<and> snakeCaseName ''UserPostController'' = ''user_post_controller''
       \<and> (\<exists>result. fst (resolveControllerPath e st controllerName projectRoot) = Inr result
            \<and> firstExistingOf e
                 (let base = path_resolve (cwd e) [projectRoot, path_dirname mappingText];
                      snake = toLowerCase (insertUnderscores controllerName)
                  in [path_join [base, snake @ ''.ts''],
                      path_join [base, snake @ ''.js''],
                      path_join [base, controllerName, ''index.ts''],
                      path_join [base, controllerName, ''index.js''],
                      path_join [base, controllerName @ ''.ts''],
                      path_join [base, controllerName @ ''.js'']])
                 result)"
proof (intro conjI)
  show s: "snakeCaseName controllerName = toLowerCase (insertUnderscores controllerName)"
    by (simp add: snakeCaseName_def replaceLowerUpper_insertUnderscores)
  show "snakeCaseName ''UserPostController'' = ''user_post_controller''"
    by code_simp
  let ?base = "path_resolve (cwd e) [projectRoot, path_dirname mappingText]"
  from assms
  have "fst (resolveControllerPath e st controllerName projectRoot)
          = Inr (firstExisting e (controllerPaths ?base controllerName))"
    by (cases "getPackageImports e st projectRoot") (simp add: resolveControllerPath_def)
  moreover have "firstExistingOf e (controllerPaths ?base controllerName)
                   (firstExisting e (controllerPaths ?base controllerName))"
    by (rule firstExisting_first)
  ultimately show "\<exists>result. fst (resolveControllerPath e st controllerName projectRoot) = Inr result
            \<and> firstExistingOf e
                 (let base = path_resolve (cwd e) [projectRoot, path_dirname mappingText];
                      snake = toLowerCase (insertUnderscores controllerName)
                  in [path_join [base, snake @ ''.ts''],
                      path_join [base, snake @ ''.js''],
                      path_join [base, controllerName, ''index.ts''],
                      path_join [base, controllerName, ''index.js''],
                      path_join [base, controllerName @ ''.ts''],
                      path_join [base, controllerName @ ''.js'']])
                 result"
    by (simp add: controllerPaths_def Let_def s)
qed

theorem controller_name_resolution_witness:
  "fst (getPackageImports scenarioEnv newProvider ''/proj'')
     = Inr (JObj [(''#controllers/*'', JStr ''./app/controllers/*.js'')])
   \<and> getProperty scenarioEnv (JObj [(''#controllers/*'', JStr ''./app/controllers/*.js'')])
         ''#controllers/*''
       = Inr (Some (JStr ''./app/controllers/*.js''))
   \<and> truthy (JStr ''./app/controllers/*.js'')
   \<and> js_String (JStr ''./app/controllers/*.js'') = Some ''./app/controllers/*.js''
   \<and> snakeCaseName ''UserController'' = ''user_controller''
   \<and> fst (resolveControllerPath scenarioEnv newProvider ''UserController'' ''/proj'')
       = Inr (Some ''/proj/app/controllers/user_controller.ts'')"
proof -
  have h1: "fst (getPackageImports scenarioEnv newProvider ''/proj'')
     = Inr (JObj [(''#controllers/*'', JStr ''./app/controllers/*.js'')])"
    by code_simp
  have h2: "getProperty scenarioEnv (JObj [(''#controllers/*'', JStr ''./app/controllers/*.js'')])
         ''#controllers/*''
       = Inr (Some (JStr ''./app/controllers/*.js''))"
    by (simp add: getProperty_def)
  have h3: "truthy (JStr ''./app/controllers/*.js'')"
    by simp
  have h4: "js_String (JStr ''./app/controllers/*.js'') = Some ''./app/controllers/*.js''"
    by simp
  have r: "fst (resolveControllerPath scenarioEnv newProvider ''UserController'' ''/proj'')
       = Inr (Some ''/proj/app/controllers/user_controller.ts'')"
    by code_simp
  have s: "toLowerCase (insertUnderscores ''UserController'') = ''user_controller''"
    by code_simp
  from controller_name_resolution [OF h1 h2 h3 h4, of "''UserController''"] s h1 h2 h3 h4 r
  show ?thesis
    by simp
qed

text \<open>
  C5, as the specification words it, fails: the code puts an underscore only between
  letters of \<^verbatim>\<open>a-z\<close> and \<^verbatim>\<open>A-Z\<close>. In the controller name written with \<^verbatim>\<open>U+00E9\<close> the lower-case
  accented letter is followed by the upper-case \<^verbatim>\<open>C\<close>; the specification's file name has an
  underscore there, the code's has none, and with only the file of the specification's
  name on disk the code finds nothing.
\<close>

theorem accented_boundary_counterexample:
  "isLowerCase (accentedName ! 3) \<and> isUpperCase (accentedName ! 4)
   \<and> toLowerCase (insertAtCaseBoundaries accentedName) = ''caf'' @ [CHR 0xE9] @ ''_controller''
   \<and> snakeCaseName accentedName = ''caf'' @ [CHR 0xE9] @ ''controller''
   \<and> existsSync accentedEnv
         (''/proj/app/controllers/'' @ toLowerCase (insertAtCaseBoundaries accentedName) @ ''.ts'')
   \<and> fst (resolveControllerPath accentedEnv newProvider accentedName ''/proj'') = Inr None"
  by code_simp

subsection \<open>Resolving an import path through the wildcard alias\<close>

lemma joinWith_splitOn: "joinWith [sep] (splitOn sep s) = s"
proof (induction s)
  case Nil
  show ?case by simp
next
  case (Cons c cs)
  obtain w ws where w: "splitOn sep cs = w # ws"
    using splitOn_not_Nil [of sep cs] by (cases "splitOn sep cs") auto
  with Cons show ?case
    by (cases ws) auto
qed

lemma joinWith_append:
  "xs \<noteq> [] \<Longrightarrow> ys \<noteq> [] \<Longrightarrow> joinWith sep (xs @ ys) = joinWith sep xs @ sep @ joinWith sep ys"
proof (induction sep xs rule: joinWith.induct)
  case (1 sep)
  then show ?case by simp
next
  case (2 sep x)
  then show ?case by (cases ys) simp_all
next
  case (3 sep x y ys')
  then show ?case by simp
qed

lemma normalize_segments:
  "list_all normalSegment segs \<Longrightarrow> foldl (normalizeStep b) acc segs = rev segs @ acc"
  by (induction segs arbitrary: acc) (simp_all add: normalSegment_def)

lemma splitOn_append_plain:
  "sep \<notin> set t \<Longrightarrow>
   splitOn sep (s @ t) = butlast (splitOn sep s) @ [last (splitOn sep s) @ t]"
proof (induction s)
  case Nil
  then show ?case by (simp add: splitOn_no_sep)
next
  case (Cons c cs)
  obtain w ws where w: "splitOn sep cs = w # ws"
    using splitOn_not_Nil [of sep cs] by (cases "splitOn sep cs") auto
  with Cons show ?case
    by (cases ws) auto
qed

lemma normalSegments_suffix:
  assumes "normalSegments m" and "CHR ''/'' \<notin> set t"
  shows "normalSegments (m @ t)"
proof -
  obtain w ws where w: "splitOn CHR ''/'' m = w # ws"
    using splitOn_not_Nil [of "CHR ''/''" m] by (cases "splitOn CHR ''/'' m") auto
  have l: "last (w # ws) \<in> set (w # ws)"
    by (rule last_in_set) simp
  with assms(1) w have "normalSegment (last (w # ws))"
    by (simp add: normalSegments_def list_all_iff)
  then have 1: "normalSegment (last (w # ws) @ t)"
    by (auto simp: normalSegment_def append_eq_Cons_conv)
  have "set (butlast (w # ws)) \<subseteq> set (w # ws)"
    by (rule subsetI) (rule in_set_butlastD)
  with assms(1) w have 2: "list_all normalSegment (butlast (w # ws))"
    by (auto simp: normalSegments_def list_all_iff)
  from 1 2 show ?thesis
    unfolding normalSegments_def splitOn_append_plain [OF assms(2)] w
    by simp
qed

lemma getSubstitution_plain: "CHR ''$'' \<notin> set r \<Longrightarrow> getSubstitution m b a r = r"
  by (induction m b a r rule: getSubstitution.induct) auto

lemma startsWith_append_self: "startsWith (p @ s) p"
  by (simp add: startsWith_def)

lemma endsWith_same_length:
  "length p = length q \<Longrightarrow> endsWith (x @ p) q \<longleftrightarrow> p = q"
  by (simp add: endsWith_def)

lemma resolve_under_root:
  assumes "normalSegments r" and "normalSegments m"
  shows "path_resolve c [CHR ''/'' # r, ''./app/controllers/'' @ m @ ''.js'']
           = CHR ''/'' # r @ ''/app/controllers/'' @ m @ ''.js''"
proof -
  let ?R = "splitOn CHR ''/'' r"
  let ?M = "splitOn CHR ''/'' (m @ ''.js'')"
  have ra: "resolveArgs (rev [CHR ''/'' # r, ''./app/controllers/'' @ m @ ''.js''] @ [c]) []
              = (CHR ''/'' # r @ ''/./app/controllers/'' @ m @ ''.js/'', True)"
    by simp
  have "CHR ''/'' # r @ ''/./app/controllers/'' @ m @ ''.js/''
          = [] @ CHR ''/'' # (r @ CHR ''/'' # (''.'' @ CHR ''/'' # (''app'' @ CHR ''/'' #
              (''controllers'' @ CHR ''/'' # ((m @ ''.js'') @ CHR ''/'' # [])))))"
    by simp
  then have "splitOn CHR ''/'' (CHR ''/'' # r @ ''/./app/controllers/'' @ m @ ''.js/'')
          = splitOn CHR ''/'' [] @ ?R @ splitOn CHR ''/'' ''.''
              @ splitOn CHR ''/'' ''app'' @ splitOn CHR ''/'' ''controllers''
              @ ?M @ splitOn CHR ''/'' []"
    by (simp only: splitOn_append_sep)
  then have sp: "splitOn CHR ''/'' (CHR ''/'' # r @ ''/./app/controllers/'' @ m @ ''.js/'')
          = [[]] @ ?R @ [''.''] @ ([''app'', ''controllers''] @ ?M) @ [[]]"
    by simp
  have nR: "list_all normalSegment ?R"
    using assms(1) by (simp add: normalSegments_def)
  have "normalSegments (m @ ''.js'')"
    using assms(2) by (rule normalSegments_suffix) simp
  then have nM': "list_all normalSegment ?M"
    by (simp add: normalSegments_def)
  have R: "?R \<noteq> []" and M: "?M \<noteq> []"
    by (rule splitOn_not_Nil)+
  have "foldl (normalizeStep False) [] ([[]] @ ?R @ [''.''] @ ([''app'', ''controllers''] @ ?M) @ [[]])
          = rev ([''app'', ''controllers''] @ ?M) @ rev ?R"
    using normalize_segments [OF nR] normalize_segments [OF nM'] by simp
  then have "normalizeString (CHR ''/'' # r @ ''/./app/controllers/'' @ m @ ''.js/'') False
          = joinWith ''/'' (?R @ ([''app'', ''controllers''] @ ?M))"
    unfolding normalizeString_def sp by (simp only: rev_append rev_rev_ident)
  also have "\<dots> = joinWith ''/'' ?R @ ''/'' @ joinWith ''/'' ([''app'', ''controllers''] @ ?M)"
    using R by (intro joinWith_append) simp_all
  also have "joinWith ''/'' ([''app'', ''controllers''] @ ?M)
               = ''app/controllers/'' @ joinWith ''/'' ?M"
    using M by (cases ?M) simp_all
  also have "joinWith ''/'' ?R = r"
    by (rule joinWith_splitOn)
  also have "joinWith ''/'' ?M = m @ ''.js''"
    by (rule joinWith_splitOn)
  finally have "normalizeString (CHR ''/'' # r @ ''/./app/controllers/'' @ m @ ''.js/'') False
                  = r @ ''/app/controllers/'' @ m @ ''.js''"
    by simp
  with ra show ?thesis
    by (simp add: path_resolve_def)
qed

lemma splitAtFirst_js:
  "\<not> str_includes x ''.js'' \<Longrightarrow> splitAtFirst ''.js'' (x @ ''.js'') = Some (x, [])"
proof (induction x)
  case Nil
  show ?case by (simp add: startsWith_def)
next
  case (Cons c x)
  from Cons.prems have n1: "\<not> startsWith (c # x) ''.js''" and n2: "\<not> str_includes x ''.js''"
    by simp_all
  have "\<not> startsWith (c # x @ ''.js'') ''.js''"
  proof (cases x)
    case Nil
    then show ?thesis by (simp add: startsWith_def)
  next
    case (Cons d y)
    show ?thesis
    proof (cases y)
      case Nil
      with Cons show ?thesis by (simp add: startsWith_def)
    next
      case (Cons f z)
      with \<open>x = d # y\<close> n1 show ?thesis by (simp add: startsWith_def)
    qed
  qed
  with Cons.IH [OF n2] show ?case
    by simp
qed

lemma replace_js_ts:
  assumes "\<not> str_includes x ''.js''"
  shows "replaceString (x @ ''.js'') ''.js'' ''.ts'' = x @ ''.ts''"
  using splitAtFirst_js [OF assms] by (simp add: replaceString_def)

lemma replace_star:
  assumes "CHR ''$'' \<notin> set m"
  shows "replaceString ''./app/controllers/*.js'' ''*'' m = ''./app/controllers/'' @ m @ ''.js''"
proof -
  have "splitAtFirst ''*'' ''./app/controllers/*.js'' = Some (''./app/controllers/'', ''.js'')"
    by code_simp
  with assms show ?thesis
    by (simp add: replaceString_def getSubstitution_plain)
qed

lemma controller_module_candidates:
  assumes "\<not> str_includes x ''.js''"
  shows "importCandidates (x @ ''.js'') = [x @ ''.ts'', x @ ''.js'', x @ ''.js'', x @ ''/index.js'']"
proof -
  have 2: "\<not> endsWith (x @ ''.js'') ''.ts''"
    by (subst endsWith_same_length) simp_all
  have 3: "endsWith (x @ ''.js'') ''.js''"
    by (subst endsWith_same_length) simp_all
  from replace_js_ts [OF assms] 2 3 show ?thesis
    by (simp add: importCandidates_def replaceSuffix_def)
qed

lemma star_in_pattern: "str_includes ''./app/controllers/*.js'' ''*''"
  by code_simp

lemma wildcard_controller_module:
  assumes "getProperty e imports ''#controllers/*'' = Inr (Some (JStr ''./app/controllers/*.js''))"
    and "absoluteNormal projectRoot"
    and "normalSegments m"
    and "CHR ''$'' \<notin> set m"
    and "\<not> str_includes (projectRoot @ ''/app/controllers/'' @ m) ''.js''"
  shows "resolveWildcard e imports (''#controllers/'' @ m) projectRoot
           = Inr (map_option topOfFile (firstExisting e
               [projectRoot @ ''/app/controllers/'' @ m @ ''.ts'',
                projectRoot @ ''/app/controllers/'' @ m @ ''.js'',
                projectRoot @ ''/app/controllers/'' @ m @ ''.js'',
                projectRoot @ ''/app/controllers/'' @ m @ ''/index.js'']))"
proof -
  from assms(2) obtain r where proot: "projectRoot = CHR ''/'' # r" and r: "normalSegments r"
    by (cases projectRoot) (auto simp: absoluteNormal_def)
  have sw: "startsWith (''#controllers/'' @ m) ''#controllers/''"
    by (rule startsWith_append_self)
  have sub: "substring (''#controllers/'' @ m) (length ''#controllers/'') = m"
    by (simp add: substring_def)
  from replace_star [OF assms(4)]
  have rs: "replaceString ''./app/controllers/*.js'' ''*'' m = ''./app/controllers/'' @ m @ ''.js''" .
  have t: "truthy (JStr ''./app/controllers/*.js'')"
    by simp
  have rp: "path_resolve (cwd e) [projectRoot, ''./app/controllers/'' @ m @ ''.js'']
              = (projectRoot @ ''/app/controllers/'' @ m) @ ''.js''"
    unfolding proot using resolve_under_root [OF r assms(3)] by simp
  have "resolveWildcard e imports (''#controllers/'' @ m) projectRoot
          = Inr (map_option topOfFile (firstExisting e
              (importCandidates ((projectRoot @ ''/app/controllers/'' @ m) @ ''.js''))))"
    unfolding resolveWildcard_def
    using sw star_in_pattern t
    by (simp only: if_True assms(1) sum.case option.case not_True_eq_False if_False
          js_String.simps Let_def sub rs rp)
  then show ?thesis
    unfolding controller_module_candidates [OF assms(5)] by simp
qed






subsection \<open>The import map\<close>

lemma getPackageImports_without_imports:
  assumes "statSync e (path_join [projectRoot, ''package.json'']) = Some mtime"
    and "readFileSync e (path_join [projectRoot, ''package.json'']) = Some content"
    and "JSON_parse e content = Some packageJson"
    and "getProperty e packageJson ''imports'' = Inr None"
    and "cacheTimestamps st (path_join [projectRoot, ''package.json'']) = Some mtime \<longrightarrow>
           orEmptyObject (importsCache st (path_join [projectRoot, ''package.json''])) = JObj []"
  shows "fst (getPackageImports e st projectRoot) = Inr (JObj [])"
  using assms
  by (simp add: getPackageImports_def loadImports_def Let_def orEmptyObject_def)

lemma empty_table_property:
  "getProperty e (JObj []) k
     = Inr (if k \<in> set objectPrototypeNames then Some (JNative (nativeText k)) else None)"
  by (simp add: getProperty_def inheritedProperty_def)

text \<open>
  C7, as the code has it. Let the manifest exist and parse to a value without an \<^verbatim>\<open>imports\<close>
  field, and let the provider hold no alias table under the manifest's present
  modification time other than the empty one (as when the call loads the manifest, or has
  loaded it before). Then the alias table of the call is empty, and whatever files exist,
  a bare controller name resolves to nothing, and so does every import path that is not
  the name of a member of \<^verbatim>\<open>Object.prototype\<close>.
\<close>

theorem manifest_without_imports:
  assumes "statSync e (path_join [projectRoot, ''package.json'']) = Some mtime"
    and "readFileSync e (path_join [projectRoot, ''package.json'']) = Some content"
    and "JSON_parse e content = Some packageJson"
    and "getProperty e packageJson ''imports'' = Inr None"
    and "cacheTimestamps st (path_join [projectRoot, ''package.json'']) = Some mtime \<longrightarrow>
           orEmptyObject (importsCache st (path_join [projectRoot, ''package.json''])) = JObj []"
  shows "fst (getPackageImports e st projectRoot) = Inr (JObj [])
       \<and> fst (resolveControllerPath e st controllerName projectRoot) = Inr None
       \<and> (importPath \<notin> set objectPrototypeNames \<longrightarrow>
            fst (resolveControllerFromImportPath e st importPath projectRoot) = Inr None)"
proof -
  from assms have g: "fst (getPackageImports e st projectRoot) = Inr (JObj [])"
    by (rule getPackageImports_without_imports)
  then obtain st' where g': "getPackageImports e st projectRoot = (Inr (JObj []), st')"
    by (cases "getPackageImports e st projectRoot") simp
  have w: "''#controllers/*'' \<notin> set objectPrototypeNames"
    by code_simp
  have "fst (resolveControllerPath e st controllerName projectRoot) = Inr None"
    using w by (simp add: resolveControllerPath_def g' empty_table_property)
  moreover have "importPath \<notin> set objectPrototypeNames \<longrightarrow>
            fst (resolveControllerFromImportPath e st importPath projectRoot) = Inr None"
    using w
    by (simp add: resolveControllerFromImportPath_def g' resolveWildcard_def empty_table_property)
  ultimately show ?thesis using g by simp
qed

theorem manifest_without_imports_witness:
  \<open>statSync noImportsEnv (path_join [''/proj'', ''package.json'']) = Some 1700000000000
   \<and> readFileSync noImportsEnv (path_join [''/proj'', ''package.json'']) = Some noImportsText
   \<and> JSON_parse noImportsEnv noImportsText = Some (JObj [(''name'', JStr ''app'')])
   \<and> getProperty noImportsEnv (JObj [(''name'', JStr ''app'')]) ''imports'' = Inr None
   \<and> cacheTimestamps newProvider (path_join [''/proj'', ''package.json'']) \<noteq> Some 1700000000000
   \<and> existsSync noImportsEnv controllerPath
   \<and> ''#controllers/user_controller'' \<notin> set objectPrototypeNames
   \<and> fst (resolveControllerPath noImportsEnv newProvider ''UserController'' ''/proj'') = Inr None
   \<and> fst (resolveControllerFromImportPath noImportsEnv newProvider ''#controllers/user_controller'' ''/proj'')
       = Inr None\<close>
proof -
  have h1: "statSync noImportsEnv (path_join [''/proj'', ''package.json'']) = Some 1700000000000"
    by code_simp
  have h2: \<open>readFileSync noImportsEnv (path_join [''/proj'', ''package.json'']) = Some noImportsText\<close>
    by code_simp
  have h3: \<open>JSON_parse noImportsEnv noImportsText = Some (JObj [(''name'', JStr ''app'')])\<close>
    by code_simp
  have h4: "getProperty noImportsEnv (JObj [(''name'', JStr ''app'')]) ''imports'' = Inr None"
    by code_simp
  have n: "cacheTimestamps newProvider (path_join [''/proj'', ''package.json'']) \<noteq> Some 1700000000000"
    by (simp add: newProvider_def)
  then have h5: "cacheTimestamps newProvider (path_join [''/proj'', ''package.json''])
                   = Some 1700000000000 \<longrightarrow>
           orEmptyObject (importsCache newProvider (path_join [''/proj'', ''package.json''])) = JObj []"
    by simp
  have ex: "existsSync noImportsEnv controllerPath"
    by (simp add: noImportsEnv_def)
  have np: "''#controllers/user_controller'' \<notin> set objectPrototypeNames"
    by code_simp
  from manifest_without_imports [OF h1 h2 h3 h4 h5, of "''UserController''" "''#controllers/user_controller''"]
    np h1 h2 h3 h4 n ex
  show ?thesis
    by simp
qed

text \<open>
  C7, as the specification words it, fails. The alias table is cached under the manifest's
  modification time: a provider that loaded the scenario's manifest keeps its table when
  the manifest is replaced by one without \<^verbatim>\<open>imports\<close> at the same modification time, and
  the import path and the bare controller name still resolve to the controller file.
  And with the empty table freshly loaded, the import path \<^verbatim>\<open>constructor\<close> reads the member
  of that name from \<^verbatim>\<open>Object.prototype\<close>, and \<^verbatim>\<open>path.resolve\<close> throws instead of the resolution
  returning nothing.
\<close>

theorem stale_table_counterexample:
  \<open>readFileSync noImportsEnv manifestPath = Some noImportsText
   \<and> JSON_parse noImportsEnv noImportsText = Some (JObj [(''name'', JStr ''app'')])
   \<and> getProperty noImportsEnv (JObj [(''name'', JStr ''app'')]) ''imports'' = Inr None
   \<and> cacheTimestamps staleProvider manifestPath = statSync noImportsEnv manifestPath
   \<and> fst (resolveControllerFromImportPath noImportsEnv staleProvider
            ''#controllers/user_controller'' ''/proj'')
       = Inr (Some (topOfFile controllerPath))
   \<and> fst (resolveControllerPath noImportsEnv staleProvider ''UserController'' ''/proj'')
       = Inr (Some controllerPath)
   \<and> fst (resolveControllerFromImportPath noImportsEnv newProvider ''constructor'' ''/proj'')
       = Inl TypeError\<close>
  by code_simp

lemma resolveControllerFromImportPath_state:
  "snd (resolveControllerFromImportPath e st p root) = snd (getPackageImports e st root)"
  by (cases "getPackageImports e st root")
     (auto simp: resolveControllerFromImportPath_def split: sum.splits option.splits json.splits)

lemma resolveControllerFromImportPath_cong:
  assumes "fst (getPackageImports e st1 root) = fst (getPackageImports e st2 root)"
  shows "fst (resolveControllerFromImportPath e st1 p root)
           = fst (resolveControllerFromImportPath e st2 p root)"
proof -
  obtain r1 s1 where 1: "getPackageImports e st1 root = (r1, s1)" by (cases "getPackageImports e st1 root")
  obtain r2 s2 where 2: "getPackageImports e st2 root = (r2, s2)" by (cases "getPackageImports e st2 root")
  from assms 1 2 have "r1 = r2" by simp
  with 1 2 show ?thesis
    by (auto simp: resolveControllerFromImportPath_def split: sum.splits option.splits json.splits)
qed

lemma resolveControllerPath_state:
  "snd (resolveControllerPath e st c root) = snd (getPackageImports e st root)"
  by (cases "getPackageImports e st root")
     (auto simp: resolveControllerPath_def Let_def split: sum.splits option.splits)

lemma resolveControllerPath_cong:
  assumes "fst (getPackageImports e st1 root) = fst (getPackageImports e st2 root)"
  shows "fst (resolveControllerPath e st1 c root) = fst (resolveControllerPath e st2 c root)"
proof -
  obtain r1 s1 where 1: "getPackageImports e st1 root = (r1, s1)" by (cases "getPackageImports e st1 root")
  obtain r2 s2 where 2: "getPackageImports e st2 root = (r2, s2)" by (cases "getPackageImports e st2 root")
  from assms 1 2 have "r1 = r2" by simp
  with 1 2 show ?thesis
    by (auto simp: resolveControllerPath_def Let_def split: sum.splits option.splits)
qed

lemma getPackageImports_again:
  "fst (getPackageImports e (snd (getPackageImports e st root)) root)
     = fst (getPackageImports e st root)"
  by (auto simp: getPackageImports_def loadImports_def Let_def orEmptyObject_def
           split: option.splits sum.splits)

lemma getPackageImports_parses:
  assumes "\<not> (manifestLoads e st root \<and> manifestUnparsable e root)"
  shows "parseCount (snd (getPackageImports e (snd (getPackageImports e st root)) root))
           = parseCount (snd (getPackageImports e st root))
         \<and> parseCount (snd (getPackageImports e st root)) \<le> Suc (parseCount st)"
  using assms
  by (auto simp: getPackageImports_def loadImports_def Let_def manifestUnparsable_def
             manifestLoads_def getProperty_def
           split: option.splits sum.splits json.splits)

lemma getPackageImports_retries:
  assumes "manifestLoads e st root" and "manifestUnparsable e root"
  shows "parseCount (snd (getPackageImports e st root)) = Suc (parseCount st)
         \<and> parseCount (snd (getPackageImports e (snd (getPackageImports e st root)) root))
             = Suc (Suc (parseCount st))
         \<and> fst (getPackageImports e st root) = Inr (JObj [])
         \<and> fst (getPackageImports e (snd (getPackageImports e st root)) root) = Inr (JObj [])"
  using assms
  by (auto simp: getPackageImports_def loadImports_def Let_def manifestUnparsable_def
             manifestLoads_def getProperty_def orEmptyObject_def
           split: option.splits sum.splits json.splits)


text \<open>
  C8, as the code has it. Resolving the same alias twice, with the manifest and the file
  system unchanged, gives the same result both times, for an import path and for a bare
  controller name, and both kinds of resolution leave the provider in the same state. The
  second call parses nothing and the two calls parse the manifest at most once, except in
  one case: the first call has to load the manifest and the manifest's text is read but
  fails to parse (or parses to \<^verbatim>\<open>null\<close>). A failed load records no timestamp, so in that
  case each of the two calls parses the manifest once, and both work with the empty alias
  table.
\<close>

theorem alias_resolution_twice:
  "fst (resolveControllerFromImportPath e (snd (resolveControllerFromImportPath e st p root)) p root)
     = fst (resolveControllerFromImportPath e st p root)
   \<and> fst (resolveControllerPath e (snd (resolveControllerPath e st c root)) c root)
       = fst (resolveControllerPath e st c root)
   \<and> snd (resolveControllerPath e st c root) = snd (resolveControllerFromImportPath e st p root)
   \<and> (\<not> (manifestLoads e st root \<and> manifestUnparsable e root) \<longrightarrow>
        parseCount (snd (resolveControllerFromImportPath e
            (snd (resolveControllerFromImportPath e st p root)) p root))
          = parseCount (snd (resolveControllerFromImportPath e st p root))
        \<and> parseCount (snd (resolveControllerFromImportPath e st p root)) \<le> Suc (parseCount st))
   \<and> (manifestLoads e st root \<and> manifestUnparsable e root \<longrightarrow>
        parseCount (snd (resolveControllerFromImportPath e st p root)) = Suc (parseCount st)
        \<and> parseCount (snd (resolveControllerFromImportPath e
              (snd (resolveControllerFromImportPath e st p root)) p root))
            = Suc (Suc (parseCount st))
        \<and> fst (getPackageImports e st root) = Inr (JObj [])
        \<and> fst (getPackageImports e (snd (resolveControllerFromImportPath e st p root)) root)
            = Inr (JObj []))"
proof (intro conjI impI)
  show "fst (resolveControllerFromImportPath e (snd (resolveControllerFromImportPath e st p root)) p root)
     = fst (resolveControllerFromImportPath e st p root)"
    unfolding resolveControllerFromImportPath_state
    by (rule resolveControllerFromImportPath_cong) (rule getPackageImports_again)
  show "fst (resolveControllerPath e (snd (resolveControllerPath e st c root)) c root)
       = fst (resolveControllerPath e st c root)"
    unfolding resolveControllerPath_state
    by (rule resolveControllerPath_cong) (rule getPackageImports_again)
  show "snd (resolveControllerPath e st c root) = snd (resolveControllerFromImportPath e st p root)"
    by (simp only: resolveControllerPath_state resolveControllerFromImportPath_state)
next
  assume u: "\<not> (manifestLoads e st root \<and> manifestUnparsable e root)"
  from getPackageImports_parses [OF u]
  show "parseCount (snd (resolveControllerFromImportPath e
            (snd (resolveControllerFromImportPath e st p root)) p root))
          = parseCount (snd (resolveControllerFromImportPath e st p root))"
    by (simp only: resolveControllerFromImportPath_state)
  from getPackageImports_parses [OF u]
  show "parseCount (snd (resolveControllerFromImportPath e st p root)) \<le> Suc (parseCount st)"
    by (simp only: resolveControllerFromImportPath_state)
next
  assume "manifestLoads e st root \<and> manifestUnparsable e root"
  then have l: "manifestLoads e st root" and u: "manifestUnparsable e root"
    by simp_all
  note r = getPackageImports_retries [OF l u]
  from r show "parseCount (snd (resolveControllerFromImportPath e st p root)) = Suc (parseCount st)"
    by (simp only: resolveControllerFromImportPath_state)
  from r show "parseCount (snd (resolveControllerFromImportPath e
              (snd (resolveControllerFromImportPath e st p root)) p root))
            = Suc (Suc (parseCount st))"
    by (simp only: resolveControllerFromImportPath_state)
  from r show "fst (getPackageImports e st root) = Inr (JObj [])"
    by (simp only:)
  from r show "fst (getPackageImports e (snd (resolveControllerFromImportPath e st p root)) root)
            = Inr (JObj [])"
    by (simp only: resolveControllerFromImportPath_state)
qed

theorem alias_resolution_twice_witness:
  "\<not> (manifestLoads scenarioEnv newProvider ''/proj'' \<and> manifestUnparsable scenarioEnv ''/proj'')
   \<and> fst (resolveControllerFromImportPath scenarioEnv newProvider ''#controllers/user_controller'' ''/proj'')
       = Inr (Some (topOfFile controllerPath))
   \<and> fst (resolveControllerFromImportPath scenarioEnv
            (snd (resolveControllerFromImportPath scenarioEnv newProvider
                    ''#controllers/user_controller'' ''/proj''))
            ''#controllers/user_controller'' ''/proj'')
       = Inr (Some (topOfFile controllerPath))
   \<and> parseCount (snd (resolveControllerFromImportPath scenarioEnv
            (snd (resolveControllerFromImportPath scenarioEnv newProvider
                    ''#controllers/user_controller'' ''/proj''))
            ''#controllers/user_controller'' ''/proj'')) \<le> 1
   \<and> manifestLoads brokenEnv newProvider ''/proj'' \<and> manifestUnparsable brokenEnv ''/proj''
   \<and> parseCount (snd (resolveControllerFromImportPath brokenEnv
            (snd (resolveControllerFromImportPath brokenEnv newProvider
                    ''#controllers/user_controller'' ''/proj''))
            ''#controllers/user_controller'' ''/proj'')) = 2
   \<and> fst (getPackageImports brokenEnv newProvider ''/proj'') = Inr (JObj [])"
proof -
  have u: "\<not> (manifestLoads scenarioEnv newProvider ''/proj'' \<and> manifestUnparsable scenarioEnv ''/proj'')"
    by code_simp
  have r: "fst (resolveControllerFromImportPath scenarioEnv newProvider ''#controllers/user_controller'' ''/proj'')
       = Inr (Some (topOfFile controllerPath))"
    by code_simp
  have z: "parseCount newProvider = 0"
    by (simp add: newProvider_def)
  have b: "manifestLoads brokenEnv newProvider ''/proj''" "manifestUnparsable brokenEnv ''/proj''"
    by code_simp+
  from alias_resolution_twice [of scenarioEnv newProvider "''#controllers/user_controller''" "''/proj''"]
    u r z
  have 1: "fst (resolveControllerFromImportPath scenarioEnv
            (snd (resolveControllerFromImportPath scenarioEnv newProvider
                    ''#controllers/user_controller'' ''/proj''))
            ''#controllers/user_controller'' ''/proj'')
       = Inr (Some (topOfFile controllerPath))
   \<and> parseCount (snd (resolveControllerFromImportPath scenarioEnv
            (snd (resolveControllerFromImportPath scenarioEnv newProvider
                    ''#controllers/user_controller'' ''/proj''))
            ''#controllers/user_controller'' ''/proj'')) \<le> 1"
    by simp
  from alias_resolution_twice [of brokenEnv newProvider "''#controllers/user_controller''" "''/proj''"]
    b z
  have 2: "parseCount (snd (resolveControllerFromImportPath brokenEnv
            (snd (resolveControllerFromImportPath brokenEnv newProvider
                    ''#controllers/user_controller'' ''/proj''))
            ''#controllers/user_controller'' ''/proj'')) = 2
   \<and> fst (getPackageImports brokenEnv newProvider ''/proj'') = Inr (JObj [])"
    by simp
  from u r b 1 2 show ?thesis
    by (simp only: simp_thms)
qed

text \<open>
  C8, as worded for a first load that failed to parse, fails: the failed load
  leaves no timestamp behind, so the second call parses the manifest again.
\<close>

theorem failed_parse_counterexample:
  "statSync brokenEnv manifestPath = Some 1700000000000
   \<and> fst (resolveControllerFromImportPath brokenEnv newProvider ''#controllers/user_controller'' ''/proj'')
       = Inr None
   \<and> parseCount (snd (resolveControllerFromImportPath brokenEnv newProvider
                        ''#controllers/user_controller'' ''/proj'')) = 1
   \<and> parseCount (snd (resolveControllerFromImportPath brokenEnv
            (snd (resolveControllerFromImportPath brokenEnv newProvider
                    ''#controllers/user_controller'' ''/proj''))
            ''#controllers/user_controller'' ''/proj'')) = 2"
  by code_simp

subsection \<open>No fault reaches the caller\<close>

lemma find_satisfies: "find P xs = Some x \<Longrightarrow> P x"
  by (induction xs) (auto split: if_splits)

lemma firstExisting_exists: "firstExisting e ps = Some p \<Longrightarrow> existsSync e p"
  by (induction ps) (auto split: if_splits)

lemma resolveControllerPath_exists:
  assumes "fst (resolveControllerPath e st c root) = Inr (Some p)"
  shows "existsSync e p"
  using assms
  by (cases "getPackageImports e st root")
     (auto simp: resolveControllerPath_def Let_def dest: firstExisting_exists
           split: sum.splits option.splits if_splits)

lemma resolveWildcard_exists:
  assumes "resolveWildcard e imports p root = Inr (Some loc)"
  shows "existsSync e (uri loc)"
  using assms
  by (auto simp: resolveWildcard_def Let_def topOfFile_def dest: firstExisting_exists
           split: sum.splits option.splits if_splits)

lemma resolveControllerFromImportPath_exists:
  assumes "fst (resolveControllerFromImportPath e st p root) = Inr (Some loc)"
  shows "existsSync e (uri loc)"
  using assms
  by (cases "getPackageImports e st root")
     (auto simp: resolveControllerFromImportPath_def topOfFile_def
           dest: firstExisting_exists resolveWildcard_exists
           split: sum.splits option.splits if_splits json.splits)

lemma findMethodInControllerFile_uri:
  "findMethodInControllerFile e path m = Some loc \<Longrightarrow> uri loc = path"
  by (auto simp: findMethodInControllerFile_def nameLocation_def split: option.splits)

lemma findMethodInController_uri:
  "findMethodInController e (fileName, text') m = Some loc \<Longrightarrow> uri loc = fileName"
  by (auto simp: findMethodInController_def nameLocation_def Let_def split: option.splits)

lemma resolveControllerDefinition_exists:
  assumes "fst (resolveControllerDefinition e st c m root) = Inr (Some loc)"
  shows "existsSync e (uri loc)"
proof -
  obtain r st' where p: "resolveControllerPath e st c root = (r, st')"
    by (cases "resolveControllerPath e st c root")
  with assms obtain path where r: "r = Inr (Some path)"
    by (auto simp: resolveControllerDefinition_def split: sum.splits option.splits)
  from p r have "fst (resolveControllerPath e st c root) = Inr (Some path)"
    by simp
  then have ex: "existsSync e path"
    by (rule resolveControllerPath_exists)
  from assms p r have "uri loc = path"
    by (auto simp: resolveControllerDefinition_def topOfFile_def
             dest: findMethodInControllerFile_uri split: if_splits option.splits)
  with ex show ?thesis by simp
qed

lemma resolveControllerVariableDefinition_exists:
  assumes "fst (resolveControllerVariableDefinition e st v m root sf) = Inr (Some loc)"
  shows "existsSync e (uri loc)"
proof -
  from assms obtain importPath where i: "findControllerImportPath v (sfRoot sf) = Some importPath"
    and ne: "importPath \<noteq> []"
    by (auto simp: resolveControllerVariableDefinition_def split: option.splits if_splits)
  obtain r st' where p: "resolveControllerFromImportPath e st importPath root = (r, st')"
    by (cases "resolveControllerFromImportPath e st importPath root")
  with assms i ne obtain target where r: "r = Inr (Some target)"
    by (auto simp: resolveControllerVariableDefinition_def split: sum.splits option.splits)
  from p r have "fst (resolveControllerFromImportPath e st importPath root) = Inr (Some target)"
    by simp
  then have ex: "existsSync e (uri target)"
    by (rule resolveControllerFromImportPath_exists)
  have f: "find (\<lambda>doc. fst doc = uri target) (textDocuments e) = Some (a, b) \<Longrightarrow> a = uri target"
    for a b
    using find_satisfies [of "\<lambda>doc. fst doc = uri target" "textDocuments e" "(a, b)"] by simp
  from assms i ne p r have "uri loc = uri target"
    by (auto simp: resolveControllerVariableDefinition_def topOfFile_def
             dest: findMethodInControllerFile_uri findMethodInController_uri f
             split: if_splits option.splits)
  with ex show ?thesis by simp
qed

lemma localRoutesModule_exists:
  "localRoutesModule e m sf = Some loc \<Longrightarrow> existsSync e (uri loc)"
  by (auto simp: localRoutesModule_def Let_def topOfFile_def split: if_splits)

lemma resolveRoutesModule_exists:
  assumes "fst (resolveRoutesModule e st m root sf) = Inr (Some loc)"
  shows "existsSync e (uri loc)"
  using assms
  by (cases "getPackageImports e st root")
     (auto simp: resolveRoutesModule_def Let_def topOfFile_def
           dest: firstExisting_exists localRoutesModule_exists
           split: sum.splits option.splits if_splits json.splits)

lemma resolveDefinition_exists:
  assumes "fst (resolveDefinition e st c root sf) = Inr (Some loc)"
  shows "existsSync e (uri loc)"
  using assms
  by (cases c)
     (auto simp: resolveDefinition_def
           dest: resolveControllerVariableDefinition_exists resolveControllerDefinition_exists
                 resolveControllerFromImportPath_exists resolveRoutesModule_exists
           split: if_splits)

lemma provideDefinition_cases:
  "fst (provideDefinition e st filePath text' offset) = Inr None
   \<or> (\<exists>located root c loc.
         findNodeAtPosition (createSourceFile e filePath text') offset = Some located
         \<and> isSupportedFile filePath
         \<and> findProjectRoot e filePath = Some root
         \<and> locatedContext (createSourceFile e filePath text') located = Some c
         \<and> fst (resolveDefinition e st c root (createSourceFile e filePath text')) = Inr (Some loc)
         \<and> fst (provideDefinition e st filePath text' offset)
             = Inr (Some (if isControllerVariable c then LinkResult [originLink text' located loc]
                          else LocationResult loc)))"
proof -
  let ?sf = "createSourceFile e filePath text'"
  show ?thesis
  proof (cases "findNodeAtPosition ?sf offset")
    case None
    then show ?thesis
      by (simp add: provideDefinition_def provideDefinitionBody_def)
  next
    case (Some located)
    note node = this
    show ?thesis
    proof (cases "isSupportedFile filePath")
      case False
      with node show ?thesis
        by (simp add: provideDefinition_def provideDefinitionBody_def)
    next
      case True
      note sup = this
      show ?thesis
      proof (cases "findProjectRoot e filePath")
        case None
        with node sup show ?thesis
          by (simp add: provideDefinition_def provideDefinitionBody_def)
      next
        case (Some root)
        note proot = this
        show ?thesis
        proof (cases "locatedContext ?sf located")
          case None
          with node sup proot show ?thesis
            by (simp add: provideDefinition_def provideDefinitionBody_def)
        next
          case (Some c)
          obtain r st' where res: "resolveDefinition e st c root ?sf = (r, st')"
            by (cases "resolveDefinition e st c root ?sf")
          show ?thesis
          proof (cases r)
            case (Inl f)
            with node sup proot Some res show ?thesis
              by (simp add: provideDefinition_def provideDefinitionBody_def)
          next
            case (Inr result)
            show ?thesis
            proof (cases result)
              case None
              with Inr node sup proot Some res show ?thesis
                by (simp add: provideDefinition_def provideDefinitionBody_def)
            next
              case (Some loc)
              with Inr node sup proot \<open>locatedContext ?sf located = Some c\<close> res
              have "fst (provideDefinition e st filePath text' offset)
                      = Inr (Some (if isControllerVariable c then LinkResult [originLink text' located loc]
                                   else LocationResult loc))"
                by (simp add: provideDefinition_def provideDefinitionBody_def)
              moreover from Some Inr res have "fst (resolveDefinition e st c root ?sf) = Inr (Some loc)"
                by simp
              ultimately show ?thesis
                using node sup proot \<open>locatedContext ?sf located = Some c\<close> by blast
            qed
          qed
        qed
      qed
    qed
  qed
qed

lemma originLink_target: "targetUri (originLink text' located loc) = uri loc"
  by (cases located) (simp add: originLink_def)

lemma getPackageImports_stat_fails:
  "statSync e (path_join [root, ''package.json'']) = None \<Longrightarrow>
   fst (getPackageImports e st root) = Inl FsError"
  by (simp add: getPackageImports_def)

lemma resolveDefinition_without_table:
  assumes "fst (getPackageImports e st root) = Inl f"
  shows "fst (resolveDefinition e st c root sf) \<noteq> Inr (Some loc)"
proof -
  obtain st' where g: "getPackageImports e st root = (Inl f, st')"
    using assms by (cases "getPackageImports e st root") simp
  show ?thesis
    by (cases c)
       (auto simp: resolveDefinition_def resolveControllerVariableDefinition_def
             resolveControllerDefinition_def resolveControllerPath_def
             resolveControllerFromImportPath_def resolveRoutesModule_def g
             split: option.splits)
qed

lemma resolveDefinition_empty_table:
  assumes "fst (getPackageImports e st root) = Inr (JObj [])"
  shows "fst (resolveDefinition e st c root sf)
           = (case c of
                RoutesModule m \<Rightarrow> Inr (if m = [] then None else localRoutesModule e m sf)
              | _ \<Rightarrow> fst (resolveDefinition e st c root sf))
         \<and> (case c of
               RoutesModule m \<Rightarrow> True
             | _ \<Rightarrow> fst (resolveDefinition e st c root sf) \<noteq> Inr (Some loc))"
proof -
  obtain st' where g: "getPackageImports e st root = (Inr (JObj []), st')"
    using assms by (cases "getPackageImports e st root") simp
  have w: "''#controllers/*'' \<notin> set objectPrototypeNames" "''#routes/*'' \<notin> set objectPrototypeNames"
    by code_simp+
  have p: "fst (resolveControllerPath e st n root) = Inr None" for n
    using w by (simp add: resolveControllerPath_def g empty_table_property)
  have i: "fst (resolveControllerFromImportPath e st q root) \<noteq> Inr (Some loc')" for q loc'
    using w
    by (simp add: resolveControllerFromImportPath_def g resolveWildcard_def empty_table_property)
  show ?thesis
  proof (cases c)
    case (ControllerVariable v m)
    have "fst (resolveControllerVariableDefinition e st v m root sf) \<noteq> Inr (Some loc)"
    proof (cases "findControllerImportPath v (sfRoot sf)")
      case None
      then show ?thesis by (simp add: resolveControllerVariableDefinition_def)
    next
      case (Some q)
      obtain r s' where r: "resolveControllerFromImportPath e st q root = (r, s')"
        by (cases "resolveControllerFromImportPath e st q root")
      with i [of q] have "\<And>loc'. r \<noteq> Inr (Some loc')" by simp
      with Some r show ?thesis
        by (auto simp: resolveControllerVariableDefinition_def split: sum.splits option.splits)
    qed
    with ControllerVariable show ?thesis
      by (simp add: resolveDefinition_def)
  next
    case (MethodString n m)
    obtain r s' where r: "resolveControllerPath e st n root = (r, s')"
      by (cases "resolveControllerPath e st n root")
    with p [of n] have "r = Inr None" by simp
    with MethodString r show ?thesis
      by (simp add: resolveDefinition_def resolveControllerDefinition_def)
  next
    case (ControllerImportPath q)
    with i [of q] show ?thesis
      by (simp add: resolveDefinition_def)
  next
    case (RoutesModule m)
    with w show ?thesis
      by (simp add: resolveDefinition_def resolveRoutesModule_def g empty_table_property)
  qed
qed

lemma resolveDefinition_missing_entry:
  assumes "fst (getPackageImports e st root) = Inr imports"
    and "aliasEntryMissing e imports (sfRoot sf) c"
  shows "fst (resolveDefinition e st c root sf) = Inr None"
proof -
  obtain st' where g: "getPackageImports e st root = (Inr imports, st')"
    using assms(1) by (cases "getPackageImports e st root") simp
  have i: "fst (resolveControllerFromImportPath e st q root) = Inr None"
    if "getProperty e imports q = Inr None" and "getProperty e imports ''#controllers/*'' = Inr None"
    for q
    using that by (simp add: resolveControllerFromImportPath_def g resolveWildcard_def)
  show ?thesis
  proof (cases c)
    case (ControllerVariable v m)
    with assms(2) obtain q where q: "findControllerImportPath v (sfRoot sf) = Some q"
      and m1: "getProperty e imports q = Inr None"
      and m2: "getProperty e imports ''#controllers/*'' = Inr None"
      by (auto simp: aliasEntryMissing_def split: option.splits)
    obtain r s' where r: "resolveControllerFromImportPath e st q root = (r, s')"
      by (cases "resolveControllerFromImportPath e st q root")
    with i [OF m1 m2] have "r = Inr None" by simp
    with ControllerVariable q r show ?thesis
      by (simp add: resolveDefinition_def resolveControllerVariableDefinition_def)
  next
    case (MethodString n m)
    with assms(2) have "getProperty e imports ''#controllers/*'' = Inr None"
      by (simp add: aliasEntryMissing_def)
    then have "resolveControllerPath e st n root = (Inr None, st')"
      by (simp add: resolveControllerPath_def g)
    with MethodString show ?thesis
      by (simp add: resolveDefinition_def resolveControllerDefinition_def)
  next
    case (ControllerImportPath q)
    with assms(2) have "getProperty e imports q = Inr None"
      and "getProperty e imports ''#controllers/*'' = Inr None"
      by (simp_all add: aliasEntryMissing_def)
    then have "fst (resolveControllerFromImportPath e st q root) = Inr None"
      by (rule i)
    with ControllerImportPath show ?thesis
      by (simp add: resolveDefinition_def)
  next
    case (RoutesModule m)
    with assms(2) show ?thesis
      by (simp add: aliasEntryMissing_def)
  qed
qed

lemma getPackageImports_failed_load:
  assumes "manifestLoads e st root"
    and "readFileSync e (path_join [root, ''package.json'']) = None \<or> manifestUnparsable e root"
  shows "fst (getPackageImports e st root) = Inr (JObj [])"
  using assms
  by (auto simp: getPackageImports_def loadImports_def Let_def manifestUnparsable_def
             manifestLoads_def getProperty_def orEmptyObject_def
           split: option.splits sum.splits json.splits)


lemma provideDefinition_resolved:
  assumes "findNodeAtPosition (createSourceFile e filePath text') offset = Some located"
    and "isSupportedFile filePath"
    and "findProjectRoot e filePath = Some root"
    and "locatedContext (createSourceFile e filePath text') located = Some c"
  shows "fst (provideDefinition e st filePath text' offset)
           = (case fst (resolveDefinition e st c root (createSourceFile e filePath text')) of
                Inl f \<Rightarrow> Inr None
              | Inr None \<Rightarrow> Inr None
              | Inr (Some loc) \<Rightarrow>
                  Inr (Some (if isControllerVariable c then LinkResult [originLink text' located loc]
                             else LocationResult loc)))"
proof -
  obtain r st' where "resolveDefinition e st c root (createSourceFile e filePath text') = (r, st')"
    by (cases "resolveDefinition e st c root (createSourceFile e filePath text')")
  with assms show ?thesis
    by (simp add: provideDefinition_def provideDefinitionBody_def split: sum.splits option.splits)
qed

lemma provideDefinition_unsupported:
  "\<not> isSupportedFile filePath \<Longrightarrow> fst (provideDefinition e st filePath text' offset) = Inr None"
  using provideDefinition_cases [of e st filePath text' offset] by auto

text \<open>
  C9, as the code has it. For every text, offset, file system and provider state,
  \<^verbatim>\<open>provideDefinition\<close> returns, and its result is never a fault: a fault raised inside it is
  caught and the result is no match. The result is no match when there is no node or no
  click context at the position, when no project root is found, when the import
  declaration of the clicked variable is not found, and when the manifest's modification
  time cannot be read. A click on a controller (a controller variable, a method string or
  a controller import path) ends in no match when the alias entry it needs is missing from
  the import map. A manifest that the request loads and that cannot be read or does not
  parse gives the empty import map; with the empty import map every click on a controller
  ends in no match, while a click on a routes module still resolves to the file of that
  name beside the routes file when it exists. Every result names a file that exists, so
  candidates that do not exist end in no match.
\<close>

theorem provideDefinition_failure_paths:
  "(\<exists>result. fst (provideDefinition e st filePath text' offset) = Inr result)
   \<and> (findNodeAtPosition (createSourceFile e filePath text') offset = None \<longrightarrow>
        fst (provideDefinition e st filePath text' offset) = Inr None)
   \<and> (\<forall>located.
        findNodeAtPosition (createSourceFile e filePath text') offset = Some located
        \<and> locatedContext (createSourceFile e filePath text') located = None \<longrightarrow>
        fst (provideDefinition e st filePath text' offset) = Inr None)
   \<and> (findProjectRoot e filePath = None \<longrightarrow>
        fst (provideDefinition e st filePath text' offset) = Inr None)
   \<and> (\<forall>located v m.
        findNodeAtPosition (createSourceFile e filePath text') offset = Some located
        \<and> locatedContext (createSourceFile e filePath text') located = Some (ControllerVariable v m)
        \<and> (findControllerImportPath v (sfRoot (createSourceFile e filePath text')) = None
             \<or> findControllerImportPath v (sfRoot (createSourceFile e filePath text')) = Some []) \<longrightarrow>
        fst (provideDefinition e st filePath text' offset) = Inr None)
   \<and> (\<forall>root.
        findProjectRoot e filePath = Some root
        \<and> statSync e (path_join [root, ''package.json'']) = None \<longrightarrow>
        fst (provideDefinition e st filePath text' offset) = Inr None)
   \<and> (\<forall>root located c imports.
        findProjectRoot e filePath = Some root
        \<and> findNodeAtPosition (createSourceFile e filePath text') offset = Some located
        \<and> locatedContext (createSourceFile e filePath text') located = Some c
        \<and> fst (getPackageImports e st root) = Inr imports
        \<and> aliasEntryMissing e imports (sfRoot (createSourceFile e filePath text')) c \<longrightarrow>
        fst (provideDefinition e st filePath text' offset) = Inr None)
   \<and> (\<forall>root.
        manifestLoads e st root
        \<and> (readFileSync e (path_join [root, ''package.json'']) = None \<or> manifestUnparsable e root) \<longrightarrow>
        fst (getPackageImports e st root) = Inr (JObj []))
   \<and> (\<forall>root located c.
        findProjectRoot e filePath = Some root
        \<and> findNodeAtPosition (createSourceFile e filePath text') offset = Some located
        \<and> locatedContext (createSourceFile e filePath text') located = Some c
        \<and> fst (getPackageImports e st root) = Inr (JObj []) \<longrightarrow>
        fst (provideDefinition e st filePath text' offset)
          = (case c of
               RoutesModule m \<Rightarrow>
                 if isSupportedFile filePath \<and> m \<noteq> [] then
                   Inr (map_option LocationResult
                          (localRoutesModule e m (createSourceFile e filePath text')))
                 else Inr None
             | _ \<Rightarrow> Inr None))
   \<and> (\<forall>loc. fst (provideDefinition e st filePath text' offset) = Inr (Some (LocationResult loc)) \<longrightarrow>
        existsSync e (uri loc))
   \<and> (\<forall>links. fst (provideDefinition e st filePath text' offset) = Inr (Some (LinkResult links)) \<longrightarrow>
        (\<forall>l \<in> set links. existsSync e (targetUri l)))"
proof -
  let ?sf = "createSourceFile e filePath text'"
  let ?R = "fst (provideDefinition e st filePath text' offset)"
  note cases = provideDefinition_cases [of e st filePath text' offset]
  have 1: "\<exists>result. ?R = Inr result"
    using cases by auto
  have 2: "findNodeAtPosition ?sf offset = None \<longrightarrow> ?R = Inr None"
    using cases by auto
  have 3: "\<forall>located. findNodeAtPosition ?sf offset = Some located
             \<and> locatedContext ?sf located = None \<longrightarrow> ?R = Inr None"
    using cases by auto
  have 4: "findProjectRoot e filePath = None \<longrightarrow> ?R = Inr None"
    using cases by auto
  have 5: "\<forall>located v m. findNodeAtPosition ?sf offset = Some located
        \<and> locatedContext ?sf located = Some (ControllerVariable v m)
        \<and> (findControllerImportPath v (sfRoot ?sf) = None
             \<or> findControllerImportPath v (sfRoot ?sf) = Some []) \<longrightarrow> ?R = Inr None"
  proof (intro allI impI)
    fix located v m
    assume h: "findNodeAtPosition ?sf offset = Some located
        \<and> locatedContext ?sf located = Some (ControllerVariable v m)
        \<and> (findControllerImportPath v (sfRoot ?sf) = None
             \<or> findControllerImportPath v (sfRoot ?sf) = Some [])"
    then have "fst (resolveDefinition e st (ControllerVariable v m) root ?sf) = Inr None" for root
      by (auto simp: resolveDefinition_def resolveControllerVariableDefinition_def)
    with h cases show "?R = Inr None"
      by auto
  qed
  have 6: "\<forall>root. findProjectRoot e filePath = Some root
        \<and> statSync e (path_join [root, ''package.json'']) = None \<longrightarrow> ?R = Inr None"
  proof (intro allI impI)
    fix root
    assume h: "findProjectRoot e filePath = Some root
        \<and> statSync e (path_join [root, ''package.json'']) = None"
    then have "fst (getPackageImports e st root) = Inl FsError"
      by (simp add: getPackageImports_stat_fails)
    then have "fst (resolveDefinition e st c root ?sf) \<noteq> Inr (Some loc)" for c loc
      by (rule resolveDefinition_without_table)
    with h cases show "?R = Inr None"
      by auto
  qed
  have 11: "\<forall>root located c imports.
        findProjectRoot e filePath = Some root
        \<and> findNodeAtPosition ?sf offset = Some located
        \<and> locatedContext ?sf located = Some c
        \<and> fst (getPackageImports e st root) = Inr imports
        \<and> aliasEntryMissing e imports (sfRoot ?sf) c \<longrightarrow> ?R = Inr None"
  proof (intro allI impI)
    fix root located c table
    assume h: "findProjectRoot e filePath = Some root
        \<and> findNodeAtPosition ?sf offset = Some located
        \<and> locatedContext ?sf located = Some c
        \<and> fst (getPackageImports e st root) = Inr table
        \<and> aliasEntryMissing e table (sfRoot ?sf) c"
    then have "fst (resolveDefinition e st c root ?sf) = Inr None"
      by (intro resolveDefinition_missing_entry [of e st root table]) simp_all
    with h cases show "?R = Inr None"
      by auto
  qed
  have 7: "\<forall>root. manifestLoads e st root
        \<and> (readFileSync e (path_join [root, ''package.json'']) = None \<or> manifestUnparsable e root) \<longrightarrow>
        fst (getPackageImports e st root) = Inr (JObj [])"
    using getPackageImports_failed_load by blast
  have 8: "\<forall>root located c. findProjectRoot e filePath = Some root
        \<and> findNodeAtPosition ?sf offset = Some located
        \<and> locatedContext ?sf located = Some c
        \<and> fst (getPackageImports e st root) = Inr (JObj []) \<longrightarrow>
        ?R = (case c of
               RoutesModule m \<Rightarrow>
                 if isSupportedFile filePath \<and> m \<noteq> [] then
                   Inr (map_option LocationResult (localRoutesModule e m ?sf))
                 else Inr None
             | _ \<Rightarrow> Inr None)"
  proof (intro allI impI)
    fix root located c
    assume h: "findProjectRoot e filePath = Some root
        \<and> findNodeAtPosition ?sf offset = Some located
        \<and> locatedContext ?sf located = Some c
        \<and> fst (getPackageImports e st root) = Inr (JObj [])"
    then have g: "fst (getPackageImports e st root) = Inr (JObj [])"
      by simp
    show "?R = (case c of
               RoutesModule m \<Rightarrow>
                 if isSupportedFile filePath \<and> m \<noteq> [] then
                   Inr (map_option LocationResult (localRoutesModule e m ?sf))
                 else Inr None
             | _ \<Rightarrow> Inr None)"
    proof (cases "isSupportedFile filePath")
      case False
      then have "?R = Inr None"
        by (rule provideDefinition_unsupported)
      with False show ?thesis
        by (cases c) simp_all
    next
      case True
      from h True
      have r: "?R = (case fst (resolveDefinition e st c root ?sf) of
                Inl f \<Rightarrow> Inr None
              | Inr None \<Rightarrow> Inr None
              | Inr (Some loc) \<Rightarrow>
                  Inr (Some (if isControllerVariable c then LinkResult [originLink text' located loc]
                             else LocationResult loc)))"
        by (intro provideDefinition_resolved) simp_all
      show ?thesis
      proof (cases c)
        case (RoutesModule m)
        with resolveDefinition_empty_table [OF g, of c ?sf]
        have "fst (resolveDefinition e st c root ?sf)
                = Inr (if m = [] then None else localRoutesModule e m ?sf)"
          by simp
        with r RoutesModule True show ?thesis
          by (cases "localRoutesModule e m ?sf") simp_all
      next
        case (ControllerVariable v m)
        with resolveDefinition_empty_table [OF g, of c ?sf]
        have "fst (resolveDefinition e st c root ?sf) \<noteq> Inr (Some loc)" for loc
          by simp
        with r ControllerVariable show ?thesis
          by (auto split: sum.splits option.splits)
      next
        case (MethodString n m)
        with resolveDefinition_empty_table [OF g, of c ?sf]
        have "fst (resolveDefinition e st c root ?sf) \<noteq> Inr (Some loc)" for loc
          by simp
        with r MethodString show ?thesis
          by (auto split: sum.splits option.splits)
      next
        case (ControllerImportPath q)
        with resolveDefinition_empty_table [OF g, of c ?sf]
        have "fst (resolveDefinition e st c root ?sf) \<noteq> Inr (Some loc)" for loc
          by simp
        with r ControllerImportPath show ?thesis
          by (auto split: sum.splits option.splits)
      qed
    qed
  qed
  have 9: "\<forall>loc. ?R = Inr (Some (LocationResult loc)) \<longrightarrow> existsSync e (uri loc)"
    using cases by (auto dest: resolveDefinition_exists split: if_splits)
  have 10: "\<forall>links. ?R = Inr (Some (LinkResult links)) \<longrightarrow>
              (\<forall>l \<in> set links. existsSync e (targetUri l))"
  proof (intro allI impI ballI)
    fix links l
    assume r: "?R = Inr (Some (LinkResult links))" and l: "l \<in> set links"
    with cases obtain located root c loc
      where "fst (resolveDefinition e st c root ?sf) = Inr (Some loc)"
        and "?R = Inr (Some (if isControllerVariable c then LinkResult [originLink text' located loc]
                             else LocationResult loc))"
      by auto
    with r l have "existsSync e (uri loc)" and "targetUri l = uri loc"
      by (auto simp: originLink_target dest: resolveDefinition_exists split: if_splits)
    then show "existsSync e (targetUri l)"
      by simp
  qed
  from 1 2 3 4 5 6 11 7 8 9 10 show ?thesis
    by (intro conjI)
qed

text \<open>
  C9, as the specification words it for a malformed manifest, fails: in a project whose
  manifest does not parse, a click on \<^verbatim>\<open>users\<close> in \<^verbatim>\<open>router.group(users)\<close> resolves to
  \<^verbatim>\<open>/proj/start/users.ts\<close>, the file beside the routes file.
\<close>

theorem routes_fallback_counterexample:
  "manifestLoads groupEnv newProvider ''/proj'' \<and> manifestUnparsable groupEnv ''/proj''
   \<and> fst (provideDefinition groupEnv newProvider routesPath groupRoutesText 15)
       = Inr (Some (LocationResult (topOfFile ''/proj/start/users.ts'')))"
  by code_simp


theorem provideDefinition_failure_paths_witness:
  "findProjectRoot statlessEnv routesPath = Some ''/proj''
   \<and> statSync statlessEnv (path_join [''/proj'', ''package.json'']) = None
   \<and> fst (provideDefinitionBody statlessEnv newProvider routesPath routesText 110) = Inl FsError
   \<and> fst (provideDefinition statlessEnv newProvider routesPath routesText 110) = Inr None
   \<and> manifestLoads brokenEnv newProvider ''/proj'' \<and> manifestUnparsable brokenEnv ''/proj''
   \<and> fst (getPackageImports brokenEnv newProvider ''/proj'') = Inr (JObj [])
   \<and> fst (provideDefinition scenarioEnv newProvider routesPath routesText 110)
       = Inr (Some (LocationResult \<lparr>uri = controllerPath, rangeStart = (0, 38), rangeEnd = (0, 43)\<rparr>))
   \<and> existsSync scenarioEnv controllerPath"
proof -
  have a1: "findProjectRoot statlessEnv routesPath = Some ''/proj''"
    by code_simp
  have a2: "statSync statlessEnv (path_join [''/proj'', ''package.json'']) = None"
    by code_simp
  have a3: "fst (provideDefinitionBody statlessEnv newProvider routesPath routesText 110) = Inl FsError"
    by code_simp
  from provideDefinition_failure_paths [of statlessEnv newProvider routesPath routesText 110] a1 a2
  have 1: "fst (provideDefinition statlessEnv newProvider routesPath routesText 110) = Inr None"
    by blast
  have b: "manifestLoads brokenEnv newProvider ''/proj''" "manifestUnparsable brokenEnv ''/proj''"
    by code_simp+
  from provideDefinition_failure_paths [of brokenEnv newProvider routesPath routesText 110] b
  have 2: "fst (getPackageImports brokenEnv newProvider ''/proj'') = Inr (JObj [])"
    by blast
  have c: "fst (provideDefinition scenarioEnv newProvider routesPath routesText 110)
       = Inr (Some (LocationResult \<lparr>uri = controllerPath, rangeStart = (0, 38), rangeEnd = (0, 43)\<rparr>))"
    by code_simp
  from provideDefinition_failure_paths [of scenarioEnv newProvider routesPath routesText 110] c
  have "existsSync scenarioEnv
          (uri \<lparr>uri = controllerPath, rangeStart = (0, 38), rangeEnd = (0, 43)\<rparr>)"
    by blast
  then have 3: "existsSync scenarioEnv controllerPath"
    by simp
  from a1 a2 a3 1 b 2 c 3 show ?thesis
    by (simp only: simp_thms)
qed

subsection \<open>The scenario, end to end\<close>

lemma locate_index:
  assumes "106 \<le> off" and "off \<le> 113"
  shows "findNodeAtPosition routesSourceFile off = Some (SyntaxNode 106 113 (Some [1, 2, 0, 1]) [])"
  using assms
  by (simp add: findNodeAtPosition_def routesSourceFile_def routesTokens_def)

lemma locate_controller:
  assumes "91 \<le> off" and "off \<le> 104"
  shows "findNodeAtPosition routesSourceFile off = Some (SyntaxNode 90 104 (Some [0, 2, 0, 1]) [])"
  using assms
  by (simp add: findNodeAtPosition_def routesSourceFile_def routesTokens_def)

lemma routes_supported: "isSupportedFile routesPath"
  by code_simp

lemma routes_project_root:
  assumes "\<not> existsSync e ''/proj/start/package.json''" and "existsSync e manifestPath"
  shows "findProjectRoot e routesPath = Some ''/proj''"
proof -
  have d1: "path_dirname routesPath = ''/proj/start''" by code_simp
  have d2: "path_dirname ''/proj/start'' = ''/proj''" by code_simp
  have d3: "path_dirname ''/proj'' = ''/''" by code_simp
  have j1: "path_join [''/proj/start'', ''package.json''] = ''/proj/start/package.json''" by code_simp
  have j2: "path_join [''/proj'', ''package.json''] = manifestPath" by code_simp
  have "findProjectRootFrom e ''/proj'' = Some ''/proj''"
    by (subst findProjectRootFrom.simps) (simp add: d3 j2 assms(2))
  then have "findProjectRootFrom e ''/proj/start'' = Some ''/proj''"
    by (subst findProjectRootFrom.simps) (simp add: d2 j1 assms(1))
  then show ?thesis
    by (simp add: findProjectRoot_def d1)
qed

lemma index_context:
  "analyzeClickContext routesRoot [1, 2, 0, 1] = Some (MethodString ''UserController'' ''index'')"
  by code_simp

lemma controller_context:
  "analyzeClickContext routesRoot [0, 2, 0, 1] = Some (ControllerVariable ''UserController'' None)"
  by code_simp

lemma scenario_controller_paths:
  "hd (controllerPaths (path_resolve c [''/proj'', path_dirname ''./app/controllers/*.js''])
         ''UserController'') = controllerPath"
proof -
  have d: "path_dirname ''./app/controllers/*.js'' = ''./app/controllers''" by code_simp
  have r: "path_resolve c [''/proj'', ''./app/controllers''] = ''/proj/app/controllers''"
    by (simp add: path_resolve_def normalizeString_def)
  have j: "path_join [''/proj/app/controllers'', snakeCaseName ''UserController'' @ ''.ts'']
             = controllerPath"
    by code_simp
  show ?thesis
    by (simp add: controllerPaths_def d r j)
qed

lemma firstExisting_hd: "ps \<noteq> [] \<Longrightarrow> existsSync e (hd ps) \<Longrightarrow> firstExisting e ps = Some (hd ps)"
  by (cases ps) simp_all

lemma controllerPaths_not_Nil: "controllerPaths b n \<noteq> []"
  by (simp add: controllerPaths_def)

lemma scenario_controller_path:
  assumes "fst (getPackageImports e st ''/proj'')
             = Inr (JObj [(''#controllers/*'', JStr ''./app/controllers/*.js'')])"
    and "existsSync e controllerPath"
  shows "fst (resolveControllerPath e st ''UserController'' ''/proj'') = Inr (Some controllerPath)"
proof -
  obtain st' where g: "getPackageImports e st ''/proj''
      = (Inr (JObj [(''#controllers/*'', JStr ''./app/controllers/*.js'')]), st')"
    using assms(1) by (cases "getPackageImports e st ''/proj''") simp
  let ?ps = "controllerPaths (path_resolve (cwd e) [''/proj'', path_dirname ''./app/controllers/*.js''])
               ''UserController''"
  have "firstExisting e ?ps = Some (hd ?ps)"
    using assms(2) by (intro firstExisting_hd controllerPaths_not_Nil) (simp add: scenario_controller_paths)
  then have "firstExisting e ?ps = Some controllerPath"
    by (simp add: scenario_controller_paths)
  then show ?thesis
    by (simp add: resolveControllerPath_def g getProperty_def)
qed

lemma scenario_method_location:
  assumes "readFileSync e controllerPath = Some controllerText"
    and "sfRoot (createSourceFile e controllerPath controllerText) = controllerRoot"
  shows "findMethodInControllerFile e controllerPath ''index''
           = Some \<lparr>uri = controllerPath, rangeStart = (0, 38), rangeEnd = (0, 43)\<rparr>"
proof -
  have b: "findBestMethodNameNode controllerRoot ''index'' = Some (Identifier 38 43 ''index'')"
    by code_simp
  have p1: "positionAt controllerText 38 = (0, 38)" by code_simp
  have p2: "positionAt controllerText 43 = (0, 43)" by code_simp
  from assms show ?thesis
    by (simp add: findMethodInControllerFile_def b nameLocation_def p1 p2)
qed

lemma scenario_import_path:
  "findControllerImportPath ''UserController'' routesRoot = Some ''#controllers/user_controller''"
  by code_simp

lemma scenario_import_location:
  assumes "fst (getPackageImports e st ''/proj'')
             = Inr (JObj [(''#controllers/*'', JStr ''./app/controllers/*.js'')])"
    and "existsSync e controllerPath"
  shows "fst (resolveControllerFromImportPath e st ''#controllers/user_controller'' ''/proj'')
           = Inr (Some (topOfFile controllerPath))"
proof -
  let ?imports = "JObj [(''#controllers/*'', JStr ''./app/controllers/*.js'')]"
  obtain st' where g: "getPackageImports e st ''/proj'' = (Inr ?imports, st')"
    using assms(1) by (cases "getPackageImports e st ''/proj''") simp
  have a: "getProperty e ?imports ''#controllers/user_controller'' = Inr None"
    by (simp add: getProperty_def inheritedProperty_def objectPrototypeNames_def)
  have o: "getProperty e ?imports ''#controllers/*'' = Inr (Some (JStr ''./app/controllers/*.js''))"
    by (simp add: getProperty_def)
  have p: "absoluteNormal ''/proj''" "normalSegments ''user_controller''"
    "CHR ''$'' \<notin> set ''user_controller''"
    "\<not> str_includes (''/proj'' @ ''/app/controllers/'' @ ''user_controller'') ''.js''"
    by code_simp+
  from wildcard_controller_module [OF o p] assms(2)
  have "resolveWildcard e ?imports (''#controllers/'' @ ''user_controller'') ''/proj''
          = Inr (Some (topOfFile controllerPath))"
    by (simp add: controllerPath_def)
  then have "resolveWildcard e ?imports ''#controllers/user_controller'' ''/proj''
          = Inr (Some (topOfFile controllerPath))"
    by simp
  then show ?thesis
    by (simp add: resolveControllerFromImportPath_def g a)
qed

text \<open>
  In a project like the scenario's (the alias table the request works with is the one of
  the scenario's manifest, the controller file exists and holds the scenario's class, and
  the nearest manifest above the routes file is the one of \<^verbatim>\<open>/proj\<close>), a click anywhere on
  the string \<^verbatim>\<open>'index'\<close> resolves to the name token of the method \<^verbatim>\<open>index\<close> in
  \<^verbatim>\<open>user_controller.ts\<close> (line 0, characters 38 to 43), and a click on the identifier
  \<^verbatim>\<open>UserController\<close> of the tuple behind its first character resolves to the same file, at
  the top of the file: the controller-variable context carries no method name. The latter
  result is a link whose origin is the clicked identifier (line 1, characters 22 to 36).
\<close>

lemma scenario_clicks:
  assumes parse_routes: "createSourceFile e routesPath routesText = routesSourceFile"
    and parse_controller: "sfRoot (createSourceFile e controllerPath controllerText) = controllerRoot"
    and no_inner_manifest: "\<not> existsSync e ''/proj/start/package.json''"
    and manifest_exists: "existsSync e manifestPath"
    and table: "fst (getPackageImports e st ''/proj'')
                  = Inr (JObj [(''#controllers/*'', JStr ''./app/controllers/*.js'')])"
    and controller_exists: "existsSync e controllerPath"
    and controller_read: "readFileSync e controllerPath = Some controllerText"
  shows "(\<forall>off. 106 \<le> off \<and> off \<le> 113 \<longrightarrow>
            fst (provideDefinition e st routesPath routesText off)
              = Inr (Some (LocationResult
                   \<lparr>uri = controllerPath, rangeStart = (0, 38), rangeEnd = (0, 43)\<rparr>)))
       \<and> (\<forall>off. 91 \<le> off \<and> off \<le> 104 \<longrightarrow>
            fst (provideDefinition e st routesPath routesText off)
              = Inr (Some (LinkResult
                   [\<lparr>originStart = (1, 22), originEnd = (1, 36), targetUri = controllerPath,
                     targetStart = (0, 0), targetEnd = (0, 0)\<rparr>])))"
proof (intro conjI allI impI)
  note proot = routes_project_root [OF no_inner_manifest manifest_exists]
  have sr: "sfRoot routesSourceFile = routesRoot"
    by (simp add: routesSourceFile_def)
  {
    fix off :: nat
    assume off: "106 \<le> off \<and> off \<le> 113"
    then have loc: "findNodeAtPosition routesSourceFile off
                      = Some (SyntaxNode 106 113 (Some [1, 2, 0, 1]) [])"
      by (intro locate_index) simp_all
    obtain st' where rp: "resolveControllerPath e st ''UserController'' ''/proj''
                            = (Inr (Some controllerPath), st')"
      using scenario_controller_path [OF table controller_exists]
      by (cases "resolveControllerPath e st ''UserController'' ''/proj''") simp
    have rd: "resolveDefinition e st (MethodString ''UserController'' ''index'') ''/proj'' routesSourceFile
                = (Inr (Some \<lparr>uri = controllerPath, rangeStart = (0, 38), rangeEnd = (0, 43)\<rparr>), st')"
      by (simp add: resolveDefinition_def resolveControllerDefinition_def rp noMethodName_def
            scenario_method_location [OF controller_read parse_controller])
    show "fst (provideDefinition e st routesPath routesText off)
              = Inr (Some (LocationResult
                   \<lparr>uri = controllerPath, rangeStart = (0, 38), rangeEnd = (0, 43)\<rparr>))"
      by (simp add: provideDefinition_def provideDefinitionBody_def parse_routes loc
            routes_supported proot locatedContext_def sr index_context [unfolded One_nat_def] rd)
  }
  {
    fix off :: nat
    assume off: "91 \<le> off \<and> off \<le> 104"
    then have loc: "findNodeAtPosition routesSourceFile off
                      = Some (SyntaxNode 90 104 (Some [0, 2, 0, 1]) [])"
      by (intro locate_controller) simp_all
    obtain st' where rp: "resolveControllerFromImportPath e st ''#controllers/user_controller'' ''/proj''
                            = (Inr (Some (topOfFile controllerPath)), st')"
      using scenario_import_location [OF table controller_exists]
      by (cases "resolveControllerFromImportPath e st ''#controllers/user_controller'' ''/proj''") simp
    have rd: "resolveDefinition e st (ControllerVariable ''UserController'' None) ''/proj'' routesSourceFile
                = (Inr (Some (topOfFile controllerPath)), st')"
      by (simp add: resolveDefinition_def resolveControllerVariableDefinition_def sr
            scenario_import_path rp noMethodName_def topOfFile_def)
    have p1: "positionAt routesText 90 = (1, 22)" by code_simp
    have p2: "positionAt routesText 104 = (1, 36)" by code_simp
    show "fst (provideDefinition e st routesPath routesText off)
              = Inr (Some (LinkResult
                   [\<lparr>originStart = (1, 22), originEnd = (1, 36), targetUri = controllerPath,
                     targetStart = (0, 0), targetEnd = (0, 0)\<rparr>]))"
      by (simp add: provideDefinition_def provideDefinitionBody_def parse_routes loc
            routes_supported proot locatedContext_def sr controller_context [unfolded One_nat_def] rd originLink_def
            p1 p2 topOfFile_def)
  }
qed

text \<open>
  C1. In the scenario's project, with a provider that has served no request yet, a click on
  the string \<^verbatim>\<open>'index'\<close> (offset 110) resolves to the name token of the method \<^verbatim>\<open>index\<close> in
  \<^verbatim>\<open>user_controller.ts\<close>, and a click on the second character of the identifier
  \<^verbatim>\<open>UserController\<close> of the tuple (offset 91) resolves to the top of that file. A click on the
  first character of the identifier (offset 90, line 1, character 22) does not resolve:
  \<^verbatim>\<open>findNodeAtPosition\<close> accepts a position equal to a token's end, and the token \<^verbatim>\<open>[\<close>, which
  ends where the identifier starts, comes first, so the node found is the bracket and the
  result is no match.
\<close>

theorem first_character_click:
  "routesText ! 90 = CHR ''U''
   \<and> take 14 (drop 90 routesText) = ''UserController''
   \<and> findNodeAtPosition routesSourceFile 90 = Some (SyntaxNode 89 90 None [])
   \<and> fst (provideDefinition scenarioEnv newProvider routesPath routesText 90) = Inr None
   \<and> findNodeAtPosition routesSourceFile 91 = Some (SyntaxNode 90 104 (Some [0, 2, 0, 1]) [])
   \<and> fst (provideDefinition scenarioEnv newProvider routesPath routesText 91)
       = Inr (Some (LinkResult
            [\<lparr>originStart = (1, 22), originEnd = (1, 36), targetUri = controllerPath,
              targetStart = (0, 0), targetEnd = (0, 0)\<rparr>]))
   \<and> fst (provideDefinition scenarioEnv newProvider routesPath routesText 110)
       = Inr (Some (LocationResult
            \<lparr>uri = controllerPath, rangeStart = (0, 38), rangeEnd = (0, 43)\<rparr>))"
  by code_simp

end
